theory Spec2Isabelle
  imports Complex_Main
begin

section \<open>JavaScript values used by the editor\<close>

text \<open>
  Strings are lists of code units below 256. An optional property (\<open>x?: T\<close>) is an
  \<open>option\<close>. Numbers that count (the cursor, the progress, the clock) are \<open>int\<close> or
  \<open>nat\<close>. The slider position and the hotspot coordinates are stored as reals; the two
  pointer handlers that compute them in floating point, \<open>handleImageClick\<close> and
  \<open>handleComparerActionMove\<close>, are not modelled, and a click or a drag is given by the
  value it stores.
\<close>

text \<open>Truthiness of an optional string: \<open>undefined\<close> and the empty string are falsy.\<close>

definition truthy :: "string option \<Rightarrow> bool" where
  "truthy v = (case v of None \<Rightarrow> False | Some t \<Rightarrow> t \<noteq> [])"

text \<open>A template literal \<open>${v}\<close> prints an absent value as \<open>undefined\<close>.\<close>

definition tmpl :: "string option \<Rightarrow> string" where
  "tmpl v = (case v of None \<Rightarrow> ''undefined'' | Some t \<Rightarrow> t)"

text \<open>\<open>v || ''\<close> on an optional string.\<close>

definition orEmpty :: "string option \<Rightarrow> string" where
  "orEmpty v = (case v of None \<Rightarrow> [] | Some t \<Rightarrow> t)"

text \<open>
  \<open>String.prototype.trim\<close>: white space and line terminators are removed at both ends
  (tab, line feed, vertical tab, form feed, carriage return, space, no-break space).
\<close>

definition isWhiteSpace :: "char \<Rightarrow> bool" where
  "isWhiteSpace c =
     (let n = (of_char c :: nat)
      in n = 9 \<or> n = 10 \<or> n = 11 \<or> n = 12 \<or> n = 13 \<or> n = 32 \<or> n = 160)"

definition trim :: "string \<Rightarrow> string" where
  "trim s = rev (dropWhile isWhiteSpace (rev (dropWhile isWhiteSpace s)))"

text \<open>\<open>String(n)\<close> for a non-negative integer: its decimal digits.\<close>

fun digits :: "nat \<Rightarrow> string" where
  "digits n = (if n < 10 then [] else digits (n div 10)) @ [''0123456789'' ! (n mod 10)]"

declare digits.simps [simp del]

section \<open>Thrown values\<close>

text \<open>
  Every \<open>throw\<close> of the source is a value. The first three constructors are the three
  \<open>throw new Error(errorMessage)\<close> statements of \<open>handleApiResponse\<close>, in the order of
  the source, each carrying the message of the \<open>Error\<close>; \<open>OtherError\<close> is any other
  \<open>Error\<close> (a rejected network call, a malformed data URL), and \<open>NonError\<close> a thrown
  value that is not an \<open>Error\<close>.
\<close>

datatype thrown =
    BlockedRequest string
  | AbnormalStop string
  | NoImageProduced string
  | OtherError string
  | NonError

text \<open>\<open>err instanceof Error ? err.message : 'An unknown error occurred.'\<close>\<close>

fun messageOf :: "thrown \<Rightarrow> string" where
  "messageOf (BlockedRequest m) = m"
| "messageOf (AbnormalStop m) = m"
| "messageOf (NoImageProduced m) = m"
| "messageOf (OtherError m) = m"
| "messageOf NonError = ''An unknown error occurred.''"

section \<open>The response envelope and its classification (geminiService.ts)\<close>

record blob =
  mimeType :: "string option"
  data :: "string option"

record part =
  inlineData :: "blob option"
  partText :: "string option"

record content =
  parts :: "part list option"

record candidate =
  content :: "content option"
  finishReason :: "string option"

record promptFeedback =
  blockReason :: "string option"
  blockReasonMessage :: "string option"

text \<open>
  \<open>responseText\<close> is the \<open>text\<close> accessor of the response, which belongs to the client
  library; its value is taken as a field.
\<close>

record generateContentResponse =
  promptFeedback :: "promptFeedback option"
  candidates :: "candidate list option"
  responseText :: "string option"

text \<open>\<open>response.promptFeedback?.blockReason\<close>\<close>

definition blockReasonOf :: "generateContentResponse \<Rightarrow> string option" where
  "blockReasonOf response =
     (case promptFeedback response of None \<Rightarrow> None | Some fb \<Rightarrow> blockReason fb)"

text \<open>\<open>response.candidates?.[0]\<close>\<close>

definition firstCandidate :: "generateContentResponse \<Rightarrow> candidate option" where
  "firstCandidate response =
     (case candidates response of
        None \<Rightarrow> None
      | Some cs \<Rightarrow> (case cs of [] \<Rightarrow> None | c # _ \<Rightarrow> Some c))"

text \<open>\<open>response.candidates?.[0]?.content?.parts\<close>, the content parts the code reads.\<close>

definition contentParts :: "generateContentResponse \<Rightarrow> part list option" where
  "contentParts response =
     (case firstCandidate response of
        None \<Rightarrow> None
      | Some c \<Rightarrow> (case content c of None \<Rightarrow> None | Some ct \<Rightarrow> parts ct))"

text \<open>\<open>...parts?.find(part => part.inlineData)\<close>\<close>

definition imagePartFromResponse :: "generateContentResponse \<Rightarrow> part option" where
  "imagePartFromResponse response =
     (case contentParts response of
        None \<Rightarrow> None
      | Some ps \<Rightarrow> find (\<lambda>p. inlineData p \<noteq> None) ps)"

text \<open>
  The classification itself. What it writes to the console is not part of what it
  returns or throws and is left out.
\<close>

definition handleApiResponse :: "generateContentResponse \<Rightarrow> string \<Rightarrow> thrown + string" where
  "handleApiResponse response context =
     (if truthy (blockReasonOf response) then
        Inl (BlockedRequest
          (''Request was blocked. Reason: '' @ tmpl (blockReasonOf response) @ ''. '' @
           orEmpty (case promptFeedback response of
                      None \<Rightarrow> None | Some fb \<Rightarrow> blockReasonMessage fb)))
      else
        (case (case imagePartFromResponse response of
                 None \<Rightarrow> None | Some p \<Rightarrow> inlineData p) of
           Some b \<Rightarrow> Inr (''data:'' @ tmpl (mimeType b) @ '';base64,'' @ tmpl (data b))
         | None \<Rightarrow>
            (let finishReason = (case firstCandidate response of
                                   None \<Rightarrow> None | Some c \<Rightarrow> finishReason c)
             in if truthy finishReason \<and> finishReason \<noteq> Some ''STOP'' then
                  Inl (AbnormalStop
                    (''Image generation for '' @ context @ '' stopped unexpectedly. Reason: '' @
                     tmpl finishReason @ ''. This often relates to safety settings.''))
                else
                  (let textFeedback = map_option trim (responseText response)
                   in Inl (NoImageProduced
                        (''The AI model did not return an image for the '' @ context @ ''. '' @
                         (if truthy textFeedback
                          then ''The model responded with text: '' @ [CHR 0x22] @
                               tmpl textFeedback @ [CHR 0x22]
                          else ''This can happen due to safety filters or if the request is too complex. Please try rephrasing your prompt to be more direct.'')))))))"

text \<open>The predicates under which the classification is stated.\<close>

definition hasImagePart :: "generateContentResponse \<Rightarrow> bool" where
  "hasImagePart response =
     (case contentParts response of
        None \<Rightarrow> False
      | Some ps \<Rightarrow> list_ex (\<lambda>p. inlineData p \<noteq> None) ps)"

definition finishReasonOf :: "generateContentResponse \<Rightarrow> string option" where
  "finishReasonOf response =
     (case firstCandidate response of None \<Rightarrow> None | Some c \<Rightarrow> finishReason c)"

definition dataUrl :: "blob \<Rightarrow> string" where
  "dataUrl b = ''data:'' @ tmpl (mimeType b) @ '';base64,'' @ tmpl (data b)"

text \<open>
  The seven operations of the gateway. Each awaits \<open>fileToPart\<close> and
  \<open>ai.models.generateContent\<close> and classifies the response; \<open>settled\<close> is what those
  awaits settle to (a rejection or a response), which the remote model decides. The
  request text is a fixed template around the arguments and is not part of the result.
\<close>

type_synonym settled = "thrown + generateContentResponse"

definition classify :: "settled \<Rightarrow> string \<Rightarrow> thrown + string" where
  "classify settled context =
     (case settled of Inl e \<Rightarrow> Inl e | Inr response \<Rightarrow> handleApiResponse response context)"

definition generateEditedImage :: "settled \<Rightarrow> thrown + string" where
  "generateEditedImage settled = classify settled ''edit''"

definition generateFilteredImage :: "settled \<Rightarrow> thrown + string" where
  "generateFilteredImage settled = classify settled ''filter''"

definition generateAdjustedImage :: "settled \<Rightarrow> thrown + string" where
  "generateAdjustedImage settled = classify settled ''adjustment''"

definition generateWhiskedImage :: "settled \<Rightarrow> thrown + string" where
  "generateWhiskedImage settled = classify settled ''whisk''"

definition generateExtendedBackdrop :: "settled \<Rightarrow> thrown + string" where
  "generateExtendedBackdrop settled = classify settled ''backdrop extension''"

definition generateReplacedBackdrop :: "settled \<Rightarrow> thrown + string" where
  "generateReplacedBackdrop settled = classify settled ''backdrop replacement''"

definition generateEnhancedImage :: "settled \<Rightarrow> thrown + string" where
  "generateEnhancedImage settled = classify settled ''enhancement''"

section \<open>Files and data URLs (App.tsx)\<close>

record File =
  name :: string
  type :: string
  bits :: string

text \<open>
  What the browser supplies: \<open>atob\<close> (which throws on input that is not base64) and
  the clock read by \<open>Date.now()\<close>.
\<close>

record platform =
  atob :: "string \<Rightarrow> thrown + string"
  dateNow :: nat

text \<open>\<open>s.split(c)\<close>: the pieces between the occurrences of \<open>c\<close>, at least one piece.\<close>

fun split :: "char \<Rightarrow> string \<Rightarrow> string list" where
  "split c [] = [[]]"
| "split c (x # xs) =
     (if x = c then [] # split c xs
      else (case split c xs of [] \<Rightarrow> [[x]] | piece # pieces \<Rightarrow> (x # piece) # pieces))"

text \<open>
  \<open>arr[0].match(/:(.*?);/)\<close>, group 1: from the first colon that is followed, with no
  line terminator in between, by a semicolon, the characters up to the nearest semicolon.
\<close>

definition isLineTerminator :: "char \<Rightarrow> bool" where
  "isLineTerminator c = (let n = (of_char c :: nat) in n = 10 \<or> n = 13)"

fun upToSemicolon :: "string \<Rightarrow> string option" where
  "upToSemicolon [] = None"
| "upToSemicolon (c # cs) =
     (if c = CHR '';'' then Some []
      else if isLineTerminator c then None
      else map_option ((#) c) (upToSemicolon cs))"

fun mimeMatch :: "string \<Rightarrow> string option" where
  "mimeMatch [] = None"
| "mimeMatch (c # cs) =
     (if c = CHR '':'' then
        (case upToSemicolon cs of Some m \<Rightarrow> Some m | None \<Rightarrow> mimeMatch cs)
      else mimeMatch cs)"

text \<open>
  \<open>new File([u8arr], filename, {type: mime})\<close>: the type is kept in lower case, or
  is empty when it holds a character outside the printable ASCII range.
\<close>

definition lowerAscii :: "char \<Rightarrow> char" where
  "lowerAscii c =
     (let n = (of_char c :: nat) in if 65 \<le> n \<and> n \<le> 90 then char_of (n + 32) else c)"

definition makeFile :: "string \<Rightarrow> string \<Rightarrow> string \<Rightarrow> File" where
  "makeFile u8arr filename mime =
     \<lparr> name = filename,
       type = (if list_all (\<lambda>c. 32 \<le> (of_char c :: nat) \<and> (of_char c :: nat) \<le> 126) mime
               then map lowerAscii mime else []),
       bits = u8arr \<rparr>"

definition dataURLtoFile :: "platform \<Rightarrow> string \<Rightarrow> string \<Rightarrow> thrown + File" where
  "dataURLtoFile pf dataurl filename =
     (let arr = split CHR '','' dataurl
      in if length arr < 2 then Inl (OtherError ''Invalid data URL'')
         else (case mimeMatch (arr ! 0) of
                 None \<Rightarrow> Inl (OtherError ''Could not parse MIME type from data URL'')
               | Some mime \<Rightarrow>
                   if mime = [] then Inl (OtherError ''Could not parse MIME type from data URL'')
                   else (case atob pf (arr ! 1) of
                           Inl e \<Rightarrow> Inl e
                         | Inr bstr \<Rightarrow> Inr (makeFile bstr filename mime))))"

section \<open>The state of the editor (App.tsx)\<close>

datatype tab = Retouch | Backdrop | Adjust | Filters | Crop

datatype viewMode = Start | Editor | Whisk | Batch

type_synonym point = "real \<times> real"

type_synonym cropArea = "real \<times> real \<times> real \<times> real"

record progress =
  processed :: nat
  total :: nat

text \<open>
  One field per state cell of the component that the handlers below read or write;
  \<open>console\<close> collects the calls of \<open>console.error\<close> made by these handlers (a
  label, empty when there is none, and the thrown value).
\<close>

record app =
  history :: "File list"
  historyIndex :: int
  prompt :: string
  editHotspot :: "point option"
  displayHotspot :: "point option"
  activeTab :: tab
  crop :: "cropArea option"
  completedCrop :: "cropArea option"
  isCompareModeActive :: bool
  compareSliderPosition :: real
  isDraggingComparer :: bool
  batchImages :: "File list"
  processedBatchImages :: "File option list"
  processingProgress :: "progress option"
  isBatchProcessingComplete :: bool
  viewMode :: viewMode
  isLoading :: bool
  error :: "string option"
  console :: "(string \<times> thrown) list"

definition initialApp :: app where
  "initialApp =
     \<lparr> history = [], historyIndex = -1, prompt = [], editHotspot = None,
       displayHotspot = None, activeTab = Retouch, crop = None, completedCrop = None,
       isCompareModeActive = False, compareSliderPosition = 50,
       isDraggingComparer = False, batchImages = [], processedBatchImages = [],
       processingProgress = None, isBatchProcessingComplete = False, viewMode = Start,
       isLoading = False, error = None, console = [] \<rparr>"

text \<open>\<open>xs[i] ?? null\<close>: an index outside the array reads \<open>undefined\<close>.\<close>

definition elemAt :: "'a list \<Rightarrow> int \<Rightarrow> 'a option" where
  "elemAt xs i = (if 0 \<le> i \<and> i < int (length xs) then Some (xs ! nat i) else None)"

definition currentImage :: "app \<Rightarrow> File option" where
  "currentImage s = elemAt (history s) (historyIndex s)"

definition originalImage :: "app \<Rightarrow> File option" where
  "originalImage s = elemAt (history s) 0"

definition canUndo :: "app \<Rightarrow> bool" where
  "canUndo s = (historyIndex s > 0)"

definition canRedo :: "app \<Rightarrow> bool" where
  "canRedo s = (historyIndex s < int (length (history s)) - 1)"

text \<open>\<open>xs.slice(0, end)\<close>: a negative \<open>end\<close> counts from the end of the array.\<close>

definition slice0 :: "'a list \<Rightarrow> int \<Rightarrow> 'a list" where
  "slice0 xs end =
     (let len = int (length xs);
          final = (if end < 0 then max (len + end) 0 else min end len)
      in take (nat final) xs)"

section \<open>The edit history\<close>

definition addImageToHistory :: "File \<Rightarrow> app \<Rightarrow> app" where
  "addImageToHistory newImageFile s =
     (let newHistory = slice0 (history s) (historyIndex s + 1) @ [newImageFile]
      in s\<lparr> history := newHistory,
            historyIndex := int (length newHistory) - 1,
            crop := None,
            completedCrop := None,
            isCompareModeActive := False \<rparr>)"

definition handleImageUpload :: "File \<Rightarrow> app \<Rightarrow> app" where
  "handleImageUpload f s =
     s\<lparr> error := None, history := [f], historyIndex := 0, editHotspot := None,
        displayHotspot := None, activeTab := Retouch, crop := None,
        completedCrop := None, viewMode := Editor, isCompareModeActive := False \<rparr>"

definition handleUndo :: "app \<Rightarrow> app" where
  "handleUndo s =
     (if canUndo s
      then s\<lparr> historyIndex := historyIndex s - 1, editHotspot := None, displayHotspot := None \<rparr>
      else s)"

definition handleRedo :: "app \<Rightarrow> app" where
  "handleRedo s =
     (if canRedo s
      then s\<lparr> historyIndex := historyIndex s + 1, editHotspot := None, displayHotspot := None \<rparr>
      else s)"

definition handleReset :: "app \<Rightarrow> app" where
  "handleReset s =
     (if length (history s) > 0
      then s\<lparr> historyIndex := 0, error := None, editHotspot := None,
              displayHotspot := None, isCompareModeActive := False \<rparr>
      else s)"

text \<open>A sequence of presses of the undo and redo buttons.\<close>

datatype navigation = Undo | Redo

fun navigate :: "navigation \<Rightarrow> app \<Rightarrow> app" where
  "navigate Undo s = handleUndo s"
| "navigate Redo s = handleRedo s"

text \<open>The cursor points into the history.\<close>

definition validCursor :: "app \<Rightarrow> bool" where
  "validCursor s = (0 \<le> historyIndex s \<and> historyIndex s \<le> int (length (history s)) - 1)"

section \<open>The edit handlers\<close>

text \<open>
  The six handlers that call the gateway share one shape: set the loading flag, await
  the gateway inside \<open>try\<close>, turn the data URL into a File and append it; \<open>catch\<close>
  writes the message into \<open>error\<close> and logs the thrown value; \<open>finally\<close> clears the
  loading flag. A handler returns \<open>Inr\<close> of the new state when its promise resolves
  and \<open>Inl\<close> when a thrown value leaves it. \<open>awaited\<close> is the settled gateway call.
  A handler is one step of the state: no other event is handled between its request and
  the answer, so the history it appends to is the one it started from.
\<close>

definition caught :: "string \<Rightarrow> thrown \<Rightarrow> app \<Rightarrow> app" where
  "caught failurePrefix err s =
     s\<lparr> error := Some (failurePrefix @ messageOf err), console := console s @ [([], err)] \<rparr>"

definition tryEdit ::
  "platform \<Rightarrow> (thrown + string) \<Rightarrow> string \<Rightarrow> string \<Rightarrow> (app \<Rightarrow> app) \<Rightarrow> app \<Rightarrow> thrown + app" where
  "tryEdit pf awaited filePrefix failurePrefix afterAppend s =
     (let s1 = s\<lparr> isLoading := True, error := None \<rparr>;
          s2 = (case awaited of
                  Inl err \<Rightarrow> caught failurePrefix err s1
                | Inr imageUrl \<Rightarrow>
                    (case dataURLtoFile pf imageUrl
                            (filePrefix @ ''-'' @ digits (dateNow pf) @ ''.png'') of
                       Inl err \<Rightarrow> caught failurePrefix err s1
                     | Inr newImageFile \<Rightarrow> afterAppend (addImageToHistory newImageFile s1)))
      in Inr (s2\<lparr> isLoading := False \<rparr>))"

definition handleGenerate :: "platform \<Rightarrow> settled \<Rightarrow> app \<Rightarrow> thrown + app" where
  "handleGenerate pf settled s =
     (if currentImage s = None then
        Inr (s\<lparr> error := Some ''No image loaded to edit.'' \<rparr>)
      else if trim (prompt s) = [] then
        Inr (s\<lparr> error := Some ''Please enter a description for your edit.'' \<rparr>)
      else if editHotspot s = None then
        Inr (s\<lparr> error := Some ''Please click on the image to select an area to edit.'' \<rparr>)
      else tryEdit pf (generateEditedImage settled) ''edited''
             ''Failed to generate the image. ''
             (\<lambda>t. t\<lparr> editHotspot := None, displayHotspot := None \<rparr>) s)"

definition handleApplyFilter :: "platform \<Rightarrow> settled \<Rightarrow> app \<Rightarrow> thrown + app" where
  "handleApplyFilter pf settled s =
     (if currentImage s = None then
        Inr (s\<lparr> error := Some ''No image loaded to apply a filter to.'' \<rparr>)
      else tryEdit pf (generateFilteredImage settled) ''filtered''
             ''Failed to apply the filter. '' (\<lambda>t. t) s)"

definition handleApplyAdjustment :: "platform \<Rightarrow> settled \<Rightarrow> app \<Rightarrow> thrown + app" where
  "handleApplyAdjustment pf settled s =
     (if currentImage s = None then
        Inr (s\<lparr> error := Some ''No image loaded to apply an adjustment to.'' \<rparr>)
      else tryEdit pf (generateAdjustedImage settled) ''adjusted''
             ''Failed to apply the adjustment. '' (\<lambda>t. t) s)"

definition handleEnhanceQuality :: "platform \<Rightarrow> settled \<Rightarrow> app \<Rightarrow> thrown + app" where
  "handleEnhanceQuality pf settled s =
     (if currentImage s = None then
        Inr (s\<lparr> error := Some ''No image loaded to enhance.'' \<rparr>)
      else tryEdit pf (generateEnhancedImage settled) ''enhanced''
             ''Failed to enhance image. '' (\<lambda>t. t) s)"

definition handleExtendBackdrop :: "platform \<Rightarrow> settled \<Rightarrow> app \<Rightarrow> thrown + app" where
  "handleExtendBackdrop pf settled s =
     (if currentImage s = None then
        Inr (s\<lparr> error := Some ''No image loaded to extend.'' \<rparr>)
      else tryEdit pf (generateExtendedBackdrop settled) ''extended''
             ''Failed to extend backdrop. '' (\<lambda>t. t) s)"

definition handleReplaceBackdrop :: "platform \<Rightarrow> settled \<Rightarrow> app \<Rightarrow> thrown + app" where
  "handleReplaceBackdrop pf settled s =
     (if currentImage s = None then
        Inr (s\<lparr> error := Some ''No image loaded for backdrop replacement.'' \<rparr>)
      else tryEdit pf (generateReplacedBackdrop settled) ''replaced''
             ''Failed to replace backdrop. '' (\<lambda>t. t) s)"

text \<open>
  The crop is drawn on a canvas: \<open>imgMounted\<close> says whether \<open>imgRef.current\<close> is set,
  and \<open>canvasDataUrl\<close> is \<open>None\<close> when the canvas gives no 2-D context and otherwise
  what \<open>canvas.toDataURL\<close> returns. The conversion to a File is outside any \<open>try\<close>.
\<close>

definition handleApplyCrop :: "platform \<Rightarrow> bool \<Rightarrow> string option \<Rightarrow> app \<Rightarrow> thrown + app" where
  "handleApplyCrop pf imgMounted canvasDataUrl s =
     (if completedCrop s = None \<or> \<not> imgMounted then
        Inr (s\<lparr> error := Some ''Please select an area to crop.'' \<rparr>)
      else (case canvasDataUrl of
              None \<Rightarrow> Inr (s\<lparr> error := Some ''Could not process the crop.'' \<rparr>)
            | Some croppedImageUrl \<Rightarrow>
                (case dataURLtoFile pf croppedImageUrl
                        (''cropped-'' @ digits (dateNow pf) @ ''.png'') of
                   Inl err \<Rightarrow> Inl err
                 | Inr newImageFile \<Rightarrow> Inr (addImageToHistory newImageFile s))))"

text \<open>
  The composite of three images starts a new history with the one File it produces.
\<close>

definition handleWhiskGenerate :: "platform \<Rightarrow> settled \<Rightarrow> app \<Rightarrow> thrown + app" where
  "handleWhiskGenerate pf settled s =
     (let s1 = s\<lparr> isLoading := True, error := None \<rparr>;
          s2 = (case generateWhiskedImage settled of
                  Inl err \<Rightarrow> caught ''Failed to whisk images. '' err s1
                | Inr whiskedImageUrl \<Rightarrow>
                    (case dataURLtoFile pf whiskedImageUrl
                            (''whisked-'' @ digits (dateNow pf) @ ''.png'') of
                       Inl err \<Rightarrow> caught ''Failed to whisk images. '' err s1
                     | Inr newImageFile \<Rightarrow>
                         s1\<lparr> history := [newImageFile], historyIndex := 0, viewMode := Editor \<rparr>))
      in Inr (s2\<lparr> isLoading := False \<rparr>))"

text \<open>
  An edit path is one of the seven handlers that append to the history, with what it
  awaits.
\<close>

datatype editPath =
    LocalizedEdit settled
  | Filter settled
  | Adjustment settled
  | Enhancement settled
  | ExtendBackdrop settled
  | ReplaceBackdrop settled
  | CropImage bool "string option"

fun runEdit :: "platform \<Rightarrow> editPath \<Rightarrow> app \<Rightarrow> thrown + app" where
  "runEdit pf (LocalizedEdit settled) s = handleGenerate pf settled s"
| "runEdit pf (Filter settled) s = handleApplyFilter pf settled s"
| "runEdit pf (Adjustment settled) s = handleApplyAdjustment pf settled s"
| "runEdit pf (Enhancement settled) s = handleEnhanceQuality pf settled s"
| "runEdit pf (ExtendBackdrop settled) s = handleExtendBackdrop pf settled s"
| "runEdit pf (ReplaceBackdrop settled) s = handleReplaceBackdrop pf settled s"
| "runEdit pf (CropImage imgMounted canvasDataUrl) s = handleApplyCrop pf imgMounted canvasDataUrl s"

text \<open>The gateway call of an edit path, for the six paths that have one.\<close>

fun gatewayCall :: "editPath \<Rightarrow> (thrown + string) option" where
  "gatewayCall (LocalizedEdit settled) = Some (generateEditedImage settled)"
| "gatewayCall (Filter settled) = Some (generateFilteredImage settled)"
| "gatewayCall (Adjustment settled) = Some (generateAdjustedImage settled)"
| "gatewayCall (Enhancement settled) = Some (generateEnhancedImage settled)"
| "gatewayCall (ExtendBackdrop settled) = Some (generateExtendedBackdrop settled)"
| "gatewayCall (ReplaceBackdrop settled) = Some (generateReplacedBackdrop settled)"
| "gatewayCall (CropImage imgMounted canvasDataUrl) = None"

fun failurePrefixOf :: "editPath \<Rightarrow> string" where
  "failurePrefixOf (LocalizedEdit settled) = ''Failed to generate the image. ''"
| "failurePrefixOf (Filter settled) = ''Failed to apply the filter. ''"
| "failurePrefixOf (Adjustment settled) = ''Failed to apply the adjustment. ''"
| "failurePrefixOf (Enhancement settled) = ''Failed to enhance image. ''"
| "failurePrefixOf (ExtendBackdrop settled) = ''Failed to extend backdrop. ''"
| "failurePrefixOf (ReplaceBackdrop settled) = ''Failed to replace backdrop. ''"
| "failurePrefixOf (CropImage imgMounted canvasDataUrl) = []"

text \<open>The guards a handler passes before it calls the gateway.\<close>

fun requestIssued :: "editPath \<Rightarrow> app \<Rightarrow> bool" where
  "requestIssued (LocalizedEdit settled) s =
     (currentImage s \<noteq> None \<and> trim (prompt s) \<noteq> [] \<and> editHotspot s \<noteq> None)"
| "requestIssued (Filter settled) s = (currentImage s \<noteq> None)"
| "requestIssued (Adjustment settled) s = (currentImage s \<noteq> None)"
| "requestIssued (Enhancement settled) s = (currentImage s \<noteq> None)"
| "requestIssued (ExtendBackdrop settled) s = (currentImage s \<noteq> None)"
| "requestIssued (ReplaceBackdrop settled) s = (currentImage s \<noteq> None)"
| "requestIssued (CropImage imgMounted canvasDataUrl) s = False"

text \<open>
  What an append leaves behind, whichever handler made it: the history cut at the
  cursor and extended by the new File, the cursor on it, the comparison closed, the crop
  selection gone and the slider where it was.
\<close>

definition appendEffects :: "app \<Rightarrow> File \<Rightarrow> app \<Rightarrow> bool" where
  "appendEffects s newImageFile s' =
     (history s' = slice0 (history s) (historyIndex s + 1) @ [newImageFile]
      \<and> historyIndex s' = int (length (history s')) - 1
      \<and> \<not> isCompareModeActive s'
      \<and> crop s' = None
      \<and> completedCrop s' = None
      \<and> compareSliderPosition s' = compareSliderPosition s)"

section \<open>The compare slider\<close>

definition handleToggleCompareMode :: "app \<Rightarrow> app" where
  "handleToggleCompareMode s =
     (if \<not> isCompareModeActive s
      then s\<lparr> compareSliderPosition := 50, isCompareModeActive := True \<rparr>
      else s\<lparr> isCompareModeActive := False \<rparr>)"

definition handleComparerMouseDown :: "app \<Rightarrow> app" where
  "handleComparerMouseDown s = s\<lparr> isDraggingComparer := True \<rparr>"

definition handleComparerActionEnd :: "app \<Rightarrow> app" where
  "handleComparerActionEnd s = s\<lparr> isDraggingComparer := False \<rparr>"

section \<open>The batch run\<close>

definition handleBatchUpload :: "File list \<Rightarrow> app \<Rightarrow> app" where
  "handleBatchUpload files s =
     s\<lparr> error := None, batchImages := files,
        processedBatchImages := replicate (length files) None,
        isBatchProcessingComplete := False, viewMode := Batch \<rparr>"

text \<open>
  \<open>generator index image prompt\<close> is what the call \<open>generator(image, prompt)\<close> made
  for position \<open>index\<close> settles to: the remote model may answer two calls on equal
  arguments differently, so the position is an argument.
\<close>

type_synonym generator = "nat \<Rightarrow> File \<Rightarrow> string \<Rightarrow> thrown + string"

text \<open>The body of the \<open>async (image, index)\<close> callback, up to its effects on the state.\<close>

definition processImage ::
  "platform \<Rightarrow> generator \<Rightarrow> string \<Rightarrow> string \<Rightarrow> File \<Rightarrow> nat \<Rightarrow> thrown + File" where
  "processImage pf generator prompt' type' img index =
     (case generator index img prompt' of
        Inl err \<Rightarrow> Inl err
      | Inr result \<Rightarrow>
          dataURLtoFile pf result (type' @ ''-'' @ digits index @ ''-'' @ name img))"

text \<open>\<open>setProcessingProgress(prev => prev ? ({ ...prev, processed: prev.processed + 1 }) : null)\<close>\<close>

definition bumpProgress :: "app \<Rightarrow> app" where
  "bumpProgress s =
     s\<lparr> processingProgress :=
          (case processingProgress s of
             None \<Rightarrow> None
           | Some prev \<Rightarrow> Some (prev\<lparr> processed := processed prev + 1 \<rparr>)) \<rparr>"

text \<open>
  \<open>Promise.allSettled\<close> keeps one slot per promise, in the order of the array it was
  given. A slot is \<open>None\<close> while its promise is pending. When the callback of position
  \<open>index\<close> settles, its slot is filled and its effects on the state take place.
\<close>

datatype settledResult = Fulfilled File | Rejected thrown

text \<open>\<open>`Failed to process image ${index} (${image.name}):`\<close>, the label of the log entry.\<close>

definition failureLabel :: "File list \<Rightarrow> nat \<Rightarrow> string" where
  "failureLabel images index =
     ''Failed to process image '' @ digits index @ '' ('' @ name (images ! index) @ ''):''"

definition settle ::
  "platform \<Rightarrow> generator \<Rightarrow> string \<Rightarrow> string \<Rightarrow> File list \<Rightarrow> nat \<Rightarrow>
   settledResult option list \<times> app \<Rightarrow> settledResult option list \<times> app" where
  "settle pf generator prompt' type' images index slots =
     (let (results, s) = slots
      in if index < length images then
           (case processImage pf generator prompt' type' (images ! index) index of
              Inr newFile \<Rightarrow> (results[index := Some (Fulfilled newFile)], bumpProgress s)
            | Inl err \<Rightarrow>
                (results[index := Some (Rejected err)],
                 bumpProgress
                   (s\<lparr> console := console s @ [(failureLabel images index, err)] \<rparr>)))
         else (results, s))"

text \<open>\<open>`${failedCount} out of ${batchImages.length} image(s) could not be processed. ...`\<close>\<close>

definition batchWarning :: "nat \<Rightarrow> nat \<Rightarrow> string" where
  "batchWarning failedCount n =
     digits failedCount @ '' out of '' @ digits n @
     '' image(s) could not be processed. They may have been blocked due to safety policies.''"

text \<open>The statements after the \<open>await\<close>, on the filled slots.\<close>

definition finishBatch :: "File list \<Rightarrow> settledResult option list \<Rightarrow> app \<Rightarrow> app" where
  "finishBatch images results s2 =
     (let newProcessedImages =
            map (\<lambda>r. case r of Some (Fulfilled v) \<Rightarrow> Some v | _ \<Rightarrow> None) results;
          s3 = s2\<lparr> processedBatchImages := newProcessedImages, isLoading := False,
                  isBatchProcessingComplete := True, processingProgress := None \<rparr>;
          failedCount = length (filter (\<lambda>img. img = None) newProcessedImages)
      in if failedCount > 0
         then s3\<lparr> error := Some (batchWarning failedCount (length images)) \<rparr>
         else s3)"

text \<open>
  \<open>order\<close> is the order in which the callbacks settle. The \<open>await\<close> resumes once every
  slot is filled; if one never is, the handler does not return (\<open>None\<close>).
\<close>

definition handleBatchApply ::
  "platform \<Rightarrow> string \<Rightarrow> generator \<Rightarrow> string \<Rightarrow> nat list \<Rightarrow> app \<Rightarrow> app option" where
  "handleBatchApply pf prompt' generator type' order s =
     (let images = batchImages s;
          s1 = s\<lparr> isLoading := True, error := None, isBatchProcessingComplete := False,
                  processingProgress := Some \<lparr> processed = 0, total = length images \<rparr> \<rparr>;
          (results, s2) = fold (settle pf generator prompt' type' images) order
                            (replicate (length images) None, s1)
      in if list_all (\<lambda>r. r \<noteq> None) results
         then Some (finishBatch images results s2)
         else None)"

definition handleBatchApplyFilter ::
  "platform \<Rightarrow> (nat \<Rightarrow> settled) \<Rightarrow> nat list \<Rightarrow> string \<Rightarrow> app \<Rightarrow> app option" where
  "handleBatchApplyFilter pf net order filterPrompt s =
     handleBatchApply pf filterPrompt (\<lambda>i img p. generateFilteredImage (net i)) ''filtered'' order s"

definition handleBatchApplyAdjustment ::
  "platform \<Rightarrow> (nat \<Rightarrow> settled) \<Rightarrow> nat list \<Rightarrow> string \<Rightarrow> app \<Rightarrow> app option" where
  "handleBatchApplyAdjustment pf net order adjustmentPrompt s =
     handleBatchApply pf adjustmentPrompt (\<lambda>i img p. generateAdjustedImage (net i)) ''adjusted'' order s"

text \<open>The slot of a settled callback.\<close>

definition settledResultOf :: "thrown + File \<Rightarrow> settledResult" where
  "settledResultOf r = (case r of Inl err \<Rightarrow> Rejected err | Inr newFile \<Rightarrow> Fulfilled newFile)"

text \<open>An order of completion settles every callback exactly once.\<close>

definition completionOrder :: "nat \<Rightarrow> nat list \<Rightarrow> bool" where
  "completionOrder n order = (distinct order \<and> list_all (\<lambda>i. i < n) order \<and> length order = n)"

text \<open>Whether, and with which File, the callback of a position is fulfilled.\<close>

definition succeeded :: "platform \<Rightarrow> generator \<Rightarrow> string \<Rightarrow> string \<Rightarrow> File list \<Rightarrow> nat \<Rightarrow> bool" where
  "succeeded pf generator prompt' type' images i =
     (case processImage pf generator prompt' type' (images ! i) i of
        Inl err \<Rightarrow> False | Inr newFile \<Rightarrow> True)"

definition produced ::
  "platform \<Rightarrow> generator \<Rightarrow> string \<Rightarrow> string \<Rightarrow> File list \<Rightarrow> nat \<Rightarrow> File option" where
  "produced pf generator prompt' type' images i =
     (case processImage pf generator prompt' type' (images ! i) i of
        Inl err \<Rightarrow> None | Inr newFile \<Rightarrow> Some newFile)"

definition failures :: "platform \<Rightarrow> generator \<Rightarrow> string \<Rightarrow> string \<Rightarrow> File list \<Rightarrow> nat" where
  "failures pf generator prompt' type' images =
     length (filter (\<lambda>i. \<not> succeeded pf generator prompt' type' images i) [0..<length images])"

section \<open>Concrete inputs\<close>

text \<open>Responses, files and states on which the properties below are evaluated.\<close>

definition pngPart :: part where
  "pngPart = \<lparr> inlineData = Some \<lparr> mimeType = Some ''image/png'', data = Some ''QUJD'' \<rparr>,
               partText = None \<rparr>"

definition textPart :: part where
  "textPart = \<lparr> inlineData = None, partText = Some ''Here you go'' \<rparr>"

definition blockedWithImage :: generateContentResponse where
  "blockedWithImage =
     \<lparr> promptFeedback = Some \<lparr> blockReason = Some ''SAFETY'', blockReasonMessage = None \<rparr>,
       candidates = Some [\<lparr> content = Some \<lparr> parts = Some [pngPart] \<rparr>,
                           finishReason = Some ''STOP'' \<rparr>],
       responseText = None \<rparr>"

definition imageResponse :: generateContentResponse where
  "imageResponse =
     \<lparr> promptFeedback = None,
       candidates = Some [\<lparr> content = Some \<lparr> parts = Some [textPart, pngPart] \<rparr>,
                           finishReason = Some ''MAX_TOKENS'' \<rparr>],
       responseText = Some ''Here you go'' \<rparr>"

definition stoppedResponse :: generateContentResponse where
  "stoppedResponse =
     \<lparr> promptFeedback = None,
       candidates = Some [\<lparr> content = Some \<lparr> parts = Some [textPart] \<rparr>,
                           finishReason = Some ''SAFETY'' \<rparr>],
       responseText = Some ''Here you go'' \<rparr>"

definition refusalResponse :: generateContentResponse where
  "refusalResponse =
     \<lparr> promptFeedback = None,
       candidates = Some [\<lparr> content = Some \<lparr> parts = Some [textPart] \<rparr>,
                           finishReason = Some ''STOP'' \<rparr>],
       responseText = Some '' No. '' \<rparr>"

definition picture :: "string \<Rightarrow> File" where
  "picture n = \<lparr> name = n, type = ''image/png'', bits = n \<rparr>"

definition editing :: "File list \<Rightarrow> int \<Rightarrow> app" where
  "editing versions cursor =
     initialApp\<lparr> history := versions, historyIndex := cursor, viewMode := Editor \<rparr>"

definition threeVersions :: "File list" where
  "threeVersions = [picture ''v0'', picture ''v1'', picture ''v2'']"

text \<open>
  A browser as far as the inputs below need it: \<open>atob\<close> decodes \<open>QUJD\<close> to \<open>ABC\<close>
  and throws on any other input.
\<close>

definition browser :: platform where
  "browser =
     \<lparr> atob = (\<lambda>s. if s = ''QUJD'' then Inr ''ABC''
                    else Inl (OtherError ''The string to be decoded is not correctly encoded.'')),
       dateNow = 1700000000000 \<rparr>"

text \<open>
  Two versions with the cursor on the second. The user opens the comparison, drags the
  slider to 30 (a pointer at 60 over a container that starts at 0 and is 200 wide:
  60 / 200 * 100 is 30), closes the comparison, clicks a point of the image and moves
  to the filters tab.
\<close>

definition comparedAndClicked :: app where
  "comparedAndClicked =
     (handleToggleCompareMode
        (handleComparerActionEnd
           ((handleComparerMouseDown
               (handleToggleCompareMode
                  (editing [picture ''v0'', picture ''v1''] 1)))
              \<lparr> compareSliderPosition := 30 \<rparr>)))
       \<lparr> editHotspot := Some (10, 10), displayHotspot := Some (5, 5), activeTab := Filters \<rparr>"

definition filteredPicture :: File where
  "filteredPicture = \<lparr> name = ''filtered-1700000000000.png'', type = ''image/png'', bits = ''ABC'' \<rparr>"

text \<open>One version, a prompt typed and a point clicked: ready for a localized edit.\<close>

definition readyToEdit :: app where
  "readyToEdit =
     (editing [picture ''v0''] 0)
       \<lparr> prompt := ''make sky blue'', editHotspot := Some (10, 10), displayHotspot := Some (5, 5) \<rparr>"

definition editedPicture :: File where
  "editedPicture = \<lparr> name = ''edited-1700000000000.png'', type = ''image/png'', bits = ''ABC'' \<rparr>"

text \<open>
  Three images uploaded as a batch, a generator whose second call is blocked, one whose
  every call is blocked, and the Files the successful calls produce.
\<close>

definition threeImages :: "File list" where
  "threeImages = [picture ''a.png'', picture ''b.png'', picture ''c.png'']"

definition uploadedBatch :: app where
  "uploadedBatch = handleBatchUpload threeImages initialApp"

definition secondBlocked :: generator where
  "secondBlocked =
     (\<lambda>i img p. generateFilteredImage (if i = 1 then Inr blockedWithImage else Inr imageResponse))"

definition allBlocked :: generator where
  "allBlocked = (\<lambda>i img p. generateFilteredImage (Inr blockedWithImage))"

definition sepia :: "string \<Rightarrow> File" where
  "sepia n = \<lparr> name = n, type = ''image/png'', bits = ''ABC'' \<rparr>"

section \<open>Verified properties\<close>

subsection \<open>Classification of a response\<close>

lemma find_inline:
  "list_ex (\<lambda>p. inlineData p \<noteq> None) ps \<Longrightarrow>
   \<exists>p b. find (\<lambda>p. inlineData p \<noteq> None) ps = Some p \<and> inlineData p = Some b \<and> p \<in> set ps"
  by (induction ps) auto

lemma find_no_inline:
  "\<not> list_ex (\<lambda>p. inlineData p \<noteq> None) ps \<Longrightarrow> find (\<lambda>p. inlineData p \<noteq> None) ps = None"
  by (induction ps) auto

lemma image_some:
  assumes img: "hasImagePart r"
  shows "\<exists>ps p b. contentParts r = Some ps \<and> find (\<lambda>p. inlineData p \<noteq> None) ps = Some p \<and> inlineData p = Some b \<and>
     (case imagePartFromResponse r of None \<Rightarrow> None | Some p \<Rightarrow> inlineData p) = Some b"
proof (cases "contentParts r")
  case None
  with img show ?thesis by (simp add: hasImagePart_def)
next
  case (Some ps)
  with img have "list_ex (\<lambda>p. inlineData p \<noteq> None) ps"
    by (simp add: hasImagePart_def)
  from find_inline [OF this] obtain p b where
    "find (\<lambda>p. inlineData p \<noteq> None) ps = Some p" "inlineData p = Some b" by blast
  with Some show ?thesis by (simp add: imagePartFromResponse_def)
qed

lemma image_none:
  assumes img: "\<not> hasImagePart r"
  shows "(case imagePartFromResponse r of None \<Rightarrow> None | Some p \<Rightarrow> inlineData p) = None"
proof (cases "contentParts r")
  case None
  then show ?thesis by (simp add: imagePartFromResponse_def)
next
  case (Some ps)
  with img have "\<not> list_ex (\<lambda>p. inlineData p \<noteq> None) ps"
    by (simp add: hasImagePart_def)
  from find_no_inline [OF this] Some show ?thesis
    by (simp add: imagePartFromResponse_def)
qed

text \<open>
  C1. A response is classified in four steps, in this order. A response whose prompt
  feedback carries a (non-empty) block reason gives the BlockedRequest failure, whatever
  its parts hold. Otherwise, if a content part (of the first candidate, the one the code
  reads) has inline data, the first such part is returned as a data URL. Otherwise a
  finish reason that is present and is not \<open>STOP\<close> gives the AbnormalStop failure.
  Otherwise the result is the NoImageProduced failure, whose message quotes the trimmed
  text of the response when there is any.
\<close>

theorem handleApiResponse_precedence:
  "(truthy (blockReasonOf r) \<longrightarrow>
      handleApiResponse r ctx =
        Inl (BlockedRequest (''Request was blocked. Reason: '' @ tmpl (blockReasonOf r) @ ''. '' @
              orEmpty (case promptFeedback r of None \<Rightarrow> None | Some fb \<Rightarrow> blockReasonMessage fb))))
   \<and> (\<not> truthy (blockReasonOf r) \<and> hasImagePart r \<longrightarrow>
        (\<exists>ps p b. contentParts r = Some ps \<and>
                  find (\<lambda>p. inlineData p \<noteq> None) ps = Some p \<and> inlineData p = Some b \<and>
                  handleApiResponse r ctx = Inr (dataUrl b)))
   \<and> (\<not> truthy (blockReasonOf r) \<and> \<not> hasImagePart r \<and>
        truthy (finishReasonOf r) \<and> finishReasonOf r \<noteq> Some ''STOP'' \<longrightarrow>
        handleApiResponse r ctx =
          Inl (AbnormalStop (''Image generation for '' @ ctx @ '' stopped unexpectedly. Reason: '' @
                tmpl (finishReasonOf r) @ ''. This often relates to safety settings.'')))
   \<and> (\<not> truthy (blockReasonOf r) \<and> \<not> hasImagePart r \<and>
        \<not> (truthy (finishReasonOf r) \<and> finishReasonOf r \<noteq> Some ''STOP'') \<longrightarrow>
        (\<exists>m. handleApiResponse r ctx = Inl (NoImageProduced (''The AI model did not return an image for the '' @ ctx @ ''. '' @ m)) \<and>
             (\<forall>t. responseText r = Some t \<and> trim t \<noteq> [] \<longrightarrow>
                  m = ''The model responded with text: '' @ [CHR 0x22] @ trim t @ [CHR 0x22])))"
proof (intro conjI impI)
  assume "truthy (blockReasonOf r)"
  then show "handleApiResponse r ctx =
        Inl (BlockedRequest (''Request was blocked. Reason: '' @ tmpl (blockReasonOf r) @ ''. '' @
              orEmpty (case promptFeedback r of None \<Rightarrow> None | Some fb \<Rightarrow> blockReasonMessage fb)))"
    by (simp add: handleApiResponse_def)
next
  assume a: "\<not> truthy (blockReasonOf r) \<and> hasImagePart r"
  then obtain ps p b where h: "contentParts r = Some ps"
    "find (\<lambda>p. inlineData p \<noteq> None) ps = Some p" "inlineData p = Some b"
    "(case imagePartFromResponse r of None \<Rightarrow> None | Some p \<Rightarrow> inlineData p) = Some b"
    using image_some by blast
  from a h(4) have "handleApiResponse r ctx = Inr (dataUrl b)"
    by (simp add: handleApiResponse_def dataUrl_def)
  with h show "\<exists>ps p b. contentParts r = Some ps \<and>
                  find (\<lambda>p. inlineData p \<noteq> None) ps = Some p \<and> inlineData p = Some b \<and>
                  handleApiResponse r ctx = Inr (dataUrl b)" by blast
next
  assume a: "\<not> truthy (blockReasonOf r) \<and> \<not> hasImagePart r \<and>
        truthy (finishReasonOf r) \<and> finishReasonOf r \<noteq> Some ''STOP''"
  then have "(case imagePartFromResponse r of None \<Rightarrow> None | Some p \<Rightarrow> inlineData p) = None"
    using image_none by blast
  with a show "handleApiResponse r ctx =
          Inl (AbnormalStop (''Image generation for '' @ ctx @ '' stopped unexpectedly. Reason: '' @
                tmpl (finishReasonOf r) @ ''. This often relates to safety settings.''))"
    by (simp add: handleApiResponse_def finishReasonOf_def Let_def)
next
  assume a: "\<not> truthy (blockReasonOf r) \<and> \<not> hasImagePart r \<and>
        \<not> (truthy (finishReasonOf r) \<and> finishReasonOf r \<noteq> Some ''STOP'')"
  then have n: "(case imagePartFromResponse r of None \<Rightarrow> None | Some p \<Rightarrow> inlineData p) = None"
    using image_none by blast
  from a have f: "\<not> (truthy (case firstCandidate r of None \<Rightarrow> None | Some c \<Rightarrow> finishReason c) \<and>
      (case firstCandidate r of None \<Rightarrow> None | Some c \<Rightarrow> finishReason c) \<noteq> Some ''STOP'')"
    by (simp add: finishReasonOf_def)
  from a n f show "\<exists>m. handleApiResponse r ctx = Inl (NoImageProduced (''The AI model did not return an image for the '' @ ctx @ ''. '' @ m)) \<and>
             (\<forall>t. responseText r = Some t \<and> trim t \<noteq> [] \<longrightarrow>
                  m = ''The model responded with text: '' @ [CHR 0x22] @ trim t @ [CHR 0x22])"
    by (auto simp add: handleApiResponse_def Let_def truthy_def tmpl_def)
qed

theorem handleApiResponse_precedence_witness:
  "handleApiResponse blockedWithImage ''edit'' =
     Inl (BlockedRequest ''Request was blocked. Reason: SAFETY. '')
   \<and> handleApiResponse imageResponse ''edit'' = Inr ''data:image/png;base64,QUJD''
   \<and> handleApiResponse stoppedResponse ''edit'' =
       Inl (AbnormalStop ''Image generation for edit stopped unexpectedly. Reason: SAFETY. This often relates to safety settings.'')
   \<and> handleApiResponse refusalResponse ''edit'' =
       Inl (NoImageProduced (''The AI model did not return an image for the edit. The model responded with text: '' @ [CHR 0x22] @ ''No.'' @ [CHR 0x22]))"
proof -
  have b: "truthy (blockReasonOf blockedWithImage) \<and> hasImagePart blockedWithImage"
    by (simp add: truthy_def blockReasonOf_def blockedWithImage_def hasImagePart_def
        contentParts_def firstCandidate_def pngPart_def)
  have i: "\<not> truthy (blockReasonOf imageResponse) \<and> hasImagePart imageResponse"
    by (simp add: truthy_def blockReasonOf_def imageResponse_def hasImagePart_def
        contentParts_def firstCandidate_def pngPart_def textPart_def)
  have s: "\<not> truthy (blockReasonOf stoppedResponse) \<and> \<not> hasImagePart stoppedResponse \<and>
           truthy (finishReasonOf stoppedResponse) \<and> finishReasonOf stoppedResponse \<noteq> Some ''STOP''"
    by (simp add: truthy_def blockReasonOf_def stoppedResponse_def hasImagePart_def
        contentParts_def firstCandidate_def finishReasonOf_def textPart_def)
  have r: "\<not> truthy (blockReasonOf refusalResponse) \<and> \<not> hasImagePart refusalResponse \<and>
           \<not> (truthy (finishReasonOf refusalResponse) \<and> finishReasonOf refusalResponse \<noteq> Some ''STOP'')"
    by (simp add: truthy_def blockReasonOf_def refusalResponse_def hasImagePart_def
        contentParts_def firstCandidate_def finishReasonOf_def textPart_def)
  have t: "responseText refusalResponse = Some '' No. '' \<and> trim '' No. '' = ''No.''"
    by (simp add: refusalResponse_def trim_def isWhiteSpace_def)
  from handleApiResponse_precedence [of blockedWithImage "''edit''"] b
  have 1: "handleApiResponse blockedWithImage ''edit'' =
     Inl (BlockedRequest ''Request was blocked. Reason: SAFETY. '')"
    by (simp add: tmpl_def orEmpty_def blockReasonOf_def blockedWithImage_def)
  from handleApiResponse_precedence [of imageResponse "''edit''"] i
  have 2: "handleApiResponse imageResponse ''edit'' = Inr ''data:image/png;base64,QUJD''"
    by (auto simp add: dataUrl_def tmpl_def contentParts_def firstCandidate_def
        imageResponse_def pngPart_def textPart_def)
  from handleApiResponse_precedence [of stoppedResponse "''edit''"] s
  have 3: "handleApiResponse stoppedResponse ''edit'' =
       Inl (AbnormalStop ''Image generation for edit stopped unexpectedly. Reason: SAFETY. This often relates to safety settings.'')"
    by (simp add: tmpl_def finishReasonOf_def firstCandidate_def stoppedResponse_def)
  from handleApiResponse_precedence [of refusalResponse "''edit''"] r t
  have 4: "handleApiResponse refusalResponse ''edit'' =
       Inl (NoImageProduced (''The AI model did not return an image for the edit. The model responded with text: '' @ [CHR 0x22] @ ''No.'' @ [CHR 0x22]))"
    by auto
  from 1 2 3 4 show ?thesis by blast
qed

subsection \<open>The edit history\<close>

lemma slice0_take:
  "0 \<le> e \<Longrightarrow> slice0 xs e = take (nat e) xs"
  by (auto simp add: slice0_def Let_def min_def)

lemma addImageToHistory_history:
  "0 \<le> historyIndex s \<Longrightarrow>
   history (addImageToHistory v s) = take (nat (historyIndex s) + 1) (history s) @ [v]"
  by (simp add: addImageToHistory_def Let_def slice0_take nat_add_distrib)

lemma addImageToHistory_index:
  "historyIndex (addImageToHistory v s) = int (length (history (addImageToHistory v s))) - 1"
  by (simp add: addImageToHistory_def Let_def)

lemma handleUndo_history [simp]: "history (handleUndo s) = history s"
  by (simp add: handleUndo_def)

lemma handleRedo_history [simp]: "history (handleRedo s) = history s"
  by (simp add: handleRedo_def)

lemma handleUndo_index:
  "historyIndex (handleUndo s) = (if historyIndex s > 0 then historyIndex s - 1 else historyIndex s)"
  by (simp add: handleUndo_def canUndo_def)

lemma handleRedo_index:
  "historyIndex (handleRedo s) =
     (if historyIndex s < int (length (history s)) - 1 then historyIndex s + 1 else historyIndex s)"
  by (simp add: handleRedo_def canRedo_def)

lemma handleUndo_valid: "validCursor s \<Longrightarrow> validCursor (handleUndo s)"
  by (auto simp add: validCursor_def handleUndo_index)

lemma handleRedo_valid: "validCursor s \<Longrightarrow> validCursor (handleRedo s)"
  by (auto simp add: validCursor_def handleRedo_index)

lemma navigate_valid: "validCursor s \<Longrightarrow> validCursor (navigate n s)"
  by (cases n) (simp_all add: handleUndo_valid handleRedo_valid)

lemma navigate_history [simp]: "history (navigate n s) = history s"
  by (cases n) simp_all

lemma fold_navigate:
  "validCursor s \<Longrightarrow>
   validCursor (fold navigate ops s) \<and> history (fold navigate ops s) = history s"
proof (induction ops arbitrary: s)
  case Nil
  then show ?case by simp
next
  case (Cons n ops)
  from Cons.prems have "validCursor (navigate n s)" by (rule navigate_valid)
  from Cons.IH [OF this] show ?case by simp
qed

lemma undo_funpow:
  "history ((handleUndo ^^ k) s) = history s \<and>
   (0 \<le> historyIndex s \<longrightarrow> historyIndex ((handleUndo ^^ k) s) = int (nat (historyIndex s) - k))"
proof (induction k)
  case 0
  then show ?case by simp
next
  case (Suc k)
  then show ?case by (auto simp add: handleUndo_index)
qed

lemma redo_funpow:
  "history ((handleRedo ^^ k) s) = history s \<and>
   (0 \<le> historyIndex s \<and> historyIndex s + int k \<le> int (length (history s)) - 1 \<longrightarrow>
      historyIndex ((handleRedo ^^ k) s) = historyIndex s + int k)"
proof (induction k)
  case 0
  then show ?case by simp
next
  case (Suc k)
  then show ?case by (auto simp add: handleRedo_index)
qed

text \<open>
  C2. With the cursor at an index \<open>i\<close> of the history, appending a version keeps the
  versions at the indices up to \<open>i\<close>, drops every later one, puts the new version
  last and moves the cursor to it. After \<open>k\<close> undos the append therefore drops the
  whole redo branch: what remains is the prefix up to the cursor the undos reached,
  followed by the new version.
\<close>

theorem addImageToHistory_truncates:
  assumes lo: "0 \<le> historyIndex s"
    and hi: "historyIndex s \<le> int (length (history s)) - 1"
  shows "history (addImageToHistory v s) = take (nat (historyIndex s) + 1) (history s) @ [v]
     \<and> length (history (addImageToHistory v s)) = nat (historyIndex s) + 2
     \<and> (\<forall>j \<le> nat (historyIndex s). history (addImageToHistory v s) ! j = history s ! j)
     \<and> history (addImageToHistory v s) ! (nat (historyIndex s) + 1) = v
     \<and> historyIndex (addImageToHistory v s) = historyIndex s + 1
     \<and> historyIndex (addImageToHistory v s) = int (length (history (addImageToHistory v s))) - 1
     \<and> (\<forall>k. history (addImageToHistory v ((handleUndo ^^ k) s)) =
              take (nat (historyIndex s) - k + 1) (history s) @ [v])"
proof -
  let ?i = "nat (historyIndex s)"
  have h: "history (addImageToHistory v s) = take (?i + 1) (history s) @ [v]"
    using lo by (rule addImageToHistory_history)
  from lo hi have len: "?i + 1 \<le> length (history s)" by linarith
  then have l: "length (history (addImageToHistory v s)) = ?i + 2"
    by (simp add: h)
  have pre: "\<forall>j \<le> ?i. history (addImageToHistory v s) ! j = history s ! j"
    using len by (simp add: h nth_append)
  have lst: "history (addImageToHistory v s) ! (?i + 1) = v"
    using len by (simp add: h nth_append)
  have idx: "historyIndex (addImageToHistory v s) = int (length (history (addImageToHistory v s))) - 1"
    by (rule addImageToHistory_index)
  have idx': "historyIndex (addImageToHistory v s) = historyIndex s + 1"
    using lo by (simp add: idx l)
  have un: "\<forall>k. history (addImageToHistory v ((handleUndo ^^ k) s)) =
              take (?i - k + 1) (history s) @ [v]"
  proof
    fix k
    from undo_funpow [of k s] lo
    have a: "history ((handleUndo ^^ k) s) = history s"
      and b: "historyIndex ((handleUndo ^^ k) s) = int (?i - k)" by simp_all
    from b have "0 \<le> historyIndex ((handleUndo ^^ k) s)" by simp
    from addImageToHistory_history [OF this] a b
    show "history (addImageToHistory v ((handleUndo ^^ k) s)) =
              take (?i - k + 1) (history s) @ [v]" by simp
  qed
  from h l pre lst idx idx' un show ?thesis by blast
qed

text \<open>
  C4. On a non-empty history with the cursor inside it, undo at cursor 0 and redo at the
  last index change nothing; elsewhere undo moves the cursor down by one and redo up by
  one. After any sequence of undos and redos the versions are the same and the cursor is
  still between 0 and the last index.
\<close>

theorem undo_redo_bounded:
  assumes ne: "history s \<noteq> []"
    and lo: "0 \<le> historyIndex s"
    and hi: "historyIndex s \<le> int (length (history s)) - 1"
  shows "(historyIndex s = 0 \<longrightarrow> handleUndo s = s)
     \<and> (historyIndex s = int (length (history s)) - 1 \<longrightarrow> handleRedo s = s)
     \<and> (0 < historyIndex s \<longrightarrow> historyIndex (handleUndo s) = historyIndex s - 1)
     \<and> (historyIndex s < int (length (history s)) - 1 \<longrightarrow>
          historyIndex (handleRedo s) = historyIndex s + 1)
     \<and> history (fold navigate ops s) = history s
     \<and> 0 \<le> historyIndex (fold navigate ops s)
     \<and> historyIndex (fold navigate ops s) \<le> int (length (history s)) - 1"
proof -
  from lo hi have v: "validCursor s" by (simp add: validCursor_def)
  from fold_navigate [OF v, of ops]
  have fv: "validCursor (fold navigate ops s)"
    and fh: "history (fold navigate ops s) = history s" by simp_all
  from fv have "0 \<le> historyIndex (fold navigate ops s)
     \<and> historyIndex (fold navigate ops s) \<le> int (length (history (fold navigate ops s))) - 1"
    by (simp add: validCursor_def)
  with fh have f: "history (fold navigate ops s) = history s
     \<and> 0 \<le> historyIndex (fold navigate ops s)
     \<and> historyIndex (fold navigate ops s) \<le> int (length (history s)) - 1"
    by metis
  have u0: "historyIndex s = 0 \<longrightarrow> handleUndo s = s"
    by (simp add: handleUndo_def canUndo_def)
  have r0: "historyIndex s = int (length (history s)) - 1 \<longrightarrow> handleRedo s = s"
    by (simp add: handleRedo_def canRedo_def)
  have u1: "0 < historyIndex s \<longrightarrow> historyIndex (handleUndo s) = historyIndex s - 1"
    by (simp add: handleUndo_index)
  have r1: "historyIndex s < int (length (history s)) - 1 \<longrightarrow>
          historyIndex (handleRedo s) = historyIndex s + 1"
    by (simp add: handleRedo_index)
  from u0 r0 u1 r1 f show ?thesis by blast
qed

text \<open>
  C5. Reset changes nothing on an empty history. On a non-empty one it moves the cursor
  to 0 and keeps every version, so that \<open>k\<close> redos after it reach index \<open>k\<close>, up to
  the last index; an append after the reset leaves the original and the new version only.
\<close>

theorem handleReset_keeps_versions:
  "(history s = [] \<longrightarrow> handleReset s = s)
   \<and> (history s \<noteq> [] \<longrightarrow>
        historyIndex (handleReset s) = 0
        \<and> history (handleReset s) = history s
        \<and> (\<forall>k < length (history s).
              historyIndex ((handleRedo ^^ k) (handleReset s)) = int k
              \<and> history ((handleRedo ^^ k) (handleReset s)) = history s)
        \<and> history (addImageToHistory v (handleReset s)) = [history s ! 0, v])"
proof (intro conjI impI)
  show "history s = [] \<Longrightarrow> handleReset s = s" by (simp add: handleReset_def)
next
  assume ne: "history s \<noteq> []"
  then show i0: "historyIndex (handleReset s) = 0" by (simp add: handleReset_def)
  from ne show h0: "history (handleReset s) = history s" by (simp add: handleReset_def)
  show "\<forall>k < length (history s).
              historyIndex ((handleRedo ^^ k) (handleReset s)) = int k
              \<and> history ((handleRedo ^^ k) (handleReset s)) = history s"
  proof (intro allI impI)
    fix k assume "k < length (history s)"
    with redo_funpow [of k "handleReset s"] i0 h0
    show "historyIndex ((handleRedo ^^ k) (handleReset s)) = int k
              \<and> history ((handleRedo ^^ k) (handleReset s)) = history s" by auto
  qed
  from i0 have "0 \<le> historyIndex (handleReset s)" by simp
  from addImageToHistory_history [OF this] i0 h0 ne
  show "history (addImageToHistory v (handleReset s)) = [history s ! 0, v]"
    by (cases "history s") simp_all
qed

theorem addImageToHistory_truncates_witness:
  "0 \<le> historyIndex (editing threeVersions 0)
   \<and> historyIndex (editing threeVersions 0) \<le> int (length (history (editing threeVersions 0))) - 1
   \<and> history (addImageToHistory (picture ''v3'') (editing threeVersions 0)) =
       [picture ''v0'', picture ''v3'']
   \<and> historyIndex (addImageToHistory (picture ''v3'') (editing threeVersions 0)) = 1
   \<and> 0 \<le> historyIndex (editing threeVersions 2)
   \<and> historyIndex (editing threeVersions 2) \<le> int (length (history (editing threeVersions 2))) - 1
   \<and> history (addImageToHistory (picture ''v3'') ((handleUndo ^^ 2) (editing threeVersions 2))) =
       [picture ''v0'', picture ''v3'']"
proof -
  have a: "0 \<le> historyIndex (editing threeVersions 0)"
    and b: "historyIndex (editing threeVersions 0) \<le> int (length (history (editing threeVersions 0))) - 1"
    and c: "0 \<le> historyIndex (editing threeVersions 2)"
    and d: "historyIndex (editing threeVersions 2) \<le> int (length (history (editing threeVersions 2))) - 1"
    by (simp_all add: editing_def threeVersions_def)
  from addImageToHistory_truncates [OF a b, of "picture ''v3''"]
  have 1: "history (addImageToHistory (picture ''v3'') (editing threeVersions 0)) =
       [picture ''v0'', picture ''v3'']
     \<and> historyIndex (addImageToHistory (picture ''v3'') (editing threeVersions 0)) = 1"
    by (simp add: editing_def threeVersions_def)
  from addImageToHistory_truncates [OF c d, of "picture ''v3''"]
  have "history (addImageToHistory (picture ''v3'') ((handleUndo ^^ 2) (editing threeVersions 2))) =
       take (nat (historyIndex (editing threeVersions 2)) - 2 + 1) (history (editing threeVersions 2)) @ [picture ''v3'']"
    by blast
  then have 2: "history (addImageToHistory (picture ''v3'') ((handleUndo ^^ 2) (editing threeVersions 2))) =
       [picture ''v0'', picture ''v3'']"
    by (simp add: editing_def threeVersions_def)
  from a b c d 1 2 show ?thesis by blast
qed

theorem undo_redo_bounded_witness:
  "history (editing threeVersions 0) \<noteq> []
   \<and> handleUndo (editing threeVersions 0) = editing threeVersions 0
   \<and> historyIndex (handleRedo (editing threeVersions 0)) = 1
   \<and> handleRedo (editing threeVersions 2) = editing threeVersions 2
   \<and> historyIndex (handleUndo (editing threeVersions 2)) = 1
   \<and> 0 \<le> historyIndex (fold navigate [Undo, Undo, Redo, Redo, Redo, Redo] (editing threeVersions 2))
   \<and> historyIndex (fold navigate [Undo, Undo, Redo, Redo, Redo, Redo] (editing threeVersions 2)) \<le> 2"
proof -
  have n0: "history (editing threeVersions 0) \<noteq> []"
    and a0: "0 \<le> historyIndex (editing threeVersions 0)"
    and b0: "historyIndex (editing threeVersions 0) \<le> int (length (history (editing threeVersions 0))) - 1"
    and n2: "history (editing threeVersions 2) \<noteq> []"
    and a2: "0 \<le> historyIndex (editing threeVersions 2)"
    and b2: "historyIndex (editing threeVersions 2) \<le> int (length (history (editing threeVersions 2))) - 1"
    by (simp_all add: editing_def threeVersions_def)
  have i0: "historyIndex (editing threeVersions 0) = 0"
    and i2: "historyIndex (editing threeVersions 2) = 2"
    and l0: "int (length (history (editing threeVersions 0))) - 1 = 2"
    and l2: "int (length (history (editing threeVersions 2))) - 1 = 2"
    by (simp_all add: editing_def threeVersions_def)
  from undo_redo_bounded [OF n0 a0 b0, of "[]"] i0 l0
  have 1: "handleUndo (editing threeVersions 0) = editing threeVersions 0
     \<and> historyIndex (handleRedo (editing threeVersions 0)) = 1"
    by simp
  from undo_redo_bounded [OF n2 a2 b2, of "[Undo, Undo, Redo, Redo, Redo, Redo]"] i2 l2
  have 2: "handleRedo (editing threeVersions 2) = editing threeVersions 2
     \<and> historyIndex (handleUndo (editing threeVersions 2)) = 1
     \<and> 0 \<le> historyIndex (fold navigate [Undo, Undo, Redo, Redo, Redo, Redo] (editing threeVersions 2))
     \<and> historyIndex (fold navigate [Undo, Undo, Redo, Redo, Redo, Redo] (editing threeVersions 2)) \<le> 2"
    by simp
  from n0 1 2 show ?thesis by blast
qed

theorem handleReset_keeps_versions_witness:
  "history initialApp = [] \<and> handleReset initialApp = initialApp
   \<and> history (editing threeVersions 2) \<noteq> []
   \<and> historyIndex (handleReset (editing threeVersions 2)) = 0
   \<and> history (handleReset (editing threeVersions 2)) = threeVersions
   \<and> historyIndex ((handleRedo ^^ 2) (handleReset (editing threeVersions 2))) = 2
   \<and> history (addImageToHistory (picture ''v3'') (handleReset (editing threeVersions 2))) =
       [picture ''v0'', picture ''v3'']"
proof -
  have e: "history initialApp = []" by (simp add: initialApp_def)
  have n: "history (editing threeVersions 2) \<noteq> []"
    and h: "history (editing threeVersions 2) = threeVersions"
    and l: "(2::nat) < length (history (editing threeVersions 2))"
    and z: "history (editing threeVersions 2) ! 0 = picture ''v0''"
    by (simp_all add: editing_def threeVersions_def)
  from handleReset_keeps_versions [of initialApp "picture ''v3''"] e
  have 1: "handleReset initialApp = initialApp" by blast
  from handleReset_keeps_versions [of "editing threeVersions 2" "picture ''v3''"] n
  have 2: "historyIndex (handleReset (editing threeVersions 2)) = 0
     \<and> history (handleReset (editing threeVersions 2)) = history (editing threeVersions 2)
     \<and> (\<forall>k < length (history (editing threeVersions 2)).
           historyIndex ((handleRedo ^^ k) (handleReset (editing threeVersions 2))) = int k
           \<and> history ((handleRedo ^^ k) (handleReset (editing threeVersions 2))) = history (editing threeVersions 2))
     \<and> history (addImageToHistory (picture ''v3'') (handleReset (editing threeVersions 2))) =
         [history (editing threeVersions 2) ! 0, picture ''v3'']"
    by blast
  from 2 l have 3: "historyIndex ((handleRedo ^^ 2) (handleReset (editing threeVersions 2))) = int 2"
    by blast
  from e 1 n 2 3 h z show ?thesis by simp
qed

subsection \<open>Failures of the gateway at the handlers\<close>

lemma tryEdit_failure:
  "tryEdit pf (Inl e) filePrefix failurePrefix afterAppend s =
     Inr (s\<lparr> isLoading := False, error := Some (failurePrefix @ messageOf e),
             console := console s @ [([], e)] \<rparr>)"
  by (simp add: tryEdit_def caught_def)

lemma handleGenerate_issued:
  "requestIssued (LocalizedEdit settled) s \<Longrightarrow>
   handleGenerate pf settled s =
     tryEdit pf (generateEditedImage settled) ''edited'' ''Failed to generate the image. ''
       (\<lambda>t. t\<lparr> editHotspot := None, displayHotspot := None \<rparr>) s"
  by (cases "currentImage s"; cases "editHotspot s") (simp_all add: handleGenerate_def)

lemma handleApplyFilter_issued:
  "requestIssued (Filter settled) s \<Longrightarrow>
   handleApplyFilter pf settled s =
     tryEdit pf (generateFilteredImage settled) ''filtered'' ''Failed to apply the filter. '' (\<lambda>t. t) s"
  by (cases "currentImage s") (simp_all add: handleApplyFilter_def)

lemma handleApplyAdjustment_issued:
  "requestIssued (Adjustment settled) s \<Longrightarrow>
   handleApplyAdjustment pf settled s =
     tryEdit pf (generateAdjustedImage settled) ''adjusted'' ''Failed to apply the adjustment. '' (\<lambda>t. t) s"
  by (cases "currentImage s") (simp_all add: handleApplyAdjustment_def)

lemma handleEnhanceQuality_issued:
  "requestIssued (Enhancement settled) s \<Longrightarrow>
   handleEnhanceQuality pf settled s =
     tryEdit pf (generateEnhancedImage settled) ''enhanced'' ''Failed to enhance image. '' (\<lambda>t. t) s"
  by (cases "currentImage s") (simp_all add: handleEnhanceQuality_def)

lemma handleExtendBackdrop_issued:
  "requestIssued (ExtendBackdrop settled) s \<Longrightarrow>
   handleExtendBackdrop pf settled s =
     tryEdit pf (generateExtendedBackdrop settled) ''extended'' ''Failed to extend backdrop. '' (\<lambda>t. t) s"
  by (cases "currentImage s") (simp_all add: handleExtendBackdrop_def)

lemma handleReplaceBackdrop_issued:
  "requestIssued (ReplaceBackdrop settled) s \<Longrightarrow>
   handleReplaceBackdrop pf settled s =
     tryEdit pf (generateReplacedBackdrop settled) ''replaced'' ''Failed to replace backdrop. '' (\<lambda>t. t) s"
  by (cases "currentImage s") (simp_all add: handleReplaceBackdrop_def)

lemma runEdit_failure:
  assumes call: "gatewayCall path = Some (Inl e)"
    and issued: "requestIssued path s"
  shows "runEdit pf path s =
     Inr (s\<lparr> isLoading := False, error := Some (failurePrefixOf path @ messageOf e),
             console := console s @ [([], e)] \<rparr>)"
proof (cases path)
  case (LocalizedEdit settled)
  with call have "generateEditedImage settled = Inl e" by simp
  with handleGenerate_issued [of settled s pf] issued LocalizedEdit
  show ?thesis by (simp add: tryEdit_failure)
next
  case (Filter settled)
  with call have "generateFilteredImage settled = Inl e" by simp
  with handleApplyFilter_issued [of settled s pf] issued Filter
  show ?thesis by (simp add: tryEdit_failure)
next
  case (Adjustment settled)
  with call have "generateAdjustedImage settled = Inl e" by simp
  with handleApplyAdjustment_issued [of settled s pf] issued Adjustment
  show ?thesis by (simp add: tryEdit_failure)
next
  case (Enhancement settled)
  with call have "generateEnhancedImage settled = Inl e" by simp
  with handleEnhanceQuality_issued [of settled s pf] issued Enhancement
  show ?thesis by (simp add: tryEdit_failure)
next
  case (ExtendBackdrop settled)
  with call have "generateExtendedBackdrop settled = Inl e" by simp
  with handleExtendBackdrop_issued [of settled s pf] issued ExtendBackdrop
  show ?thesis by (simp add: tryEdit_failure)
next
  case (ReplaceBackdrop settled)
  with call have "generateReplacedBackdrop settled = Inl e" by simp
  with handleReplaceBackdrop_issued [of settled s pf] issued ReplaceBackdrop
  show ?thesis by (simp add: tryEdit_failure)
next
  case (CropImage imgMounted canvasDataUrl)
  with call show ?thesis by simp
qed

text \<open>
  C9. When the gateway call of an edit handler, or of the composite, fails (the request
  was blocked, the generation stopped abnormally, no image came back, or the call was
  rejected), the handler's promise still resolves: nothing thrown leaves it. The
  failure becomes one string in \<open>error\<close>, the handler's prefix followed by the
  message; the history and the cursor are as before and the loading flag is cleared.
\<close>

theorem gateway_failure_caught:
  "(gatewayCall path = Some (Inl e) \<and> requestIssued path s \<longrightarrow>
      (\<exists>s'. runEdit pf path s = Inr s'
            \<and> error s' = Some (failurePrefixOf path @ messageOf e)
            \<and> history s' = history s
            \<and> historyIndex s' = historyIndex s
            \<and> isLoading s' = False))
   \<and> (generateWhiskedImage settled = Inl e \<longrightarrow>
      (\<exists>s'. handleWhiskGenerate pf settled s = Inr s'
            \<and> error s' = Some (''Failed to whisk images. '' @ messageOf e)
            \<and> history s' = history s
            \<and> historyIndex s' = historyIndex s
            \<and> isLoading s' = False))"
proof (intro conjI impI)
  assume a: "gatewayCall path = Some (Inl e) \<and> requestIssued path s"
  let ?s' = "s\<lparr> isLoading := False, error := Some (failurePrefixOf path @ messageOf e),
             console := console s @ [([], e)] \<rparr>"
  from a have "runEdit pf path s = Inr ?s'" by (simp add: runEdit_failure)
  moreover have "error ?s' = Some (failurePrefixOf path @ messageOf e)" by simp
  moreover have "history ?s' = history s" by simp
  moreover have "historyIndex ?s' = historyIndex s" by simp
  moreover have "isLoading ?s' = False" by simp
  ultimately show "\<exists>s'. runEdit pf path s = Inr s'
            \<and> error s' = Some (failurePrefixOf path @ messageOf e)
            \<and> history s' = history s
            \<and> historyIndex s' = historyIndex s
            \<and> isLoading s' = False" by blast
next
  assume a: "generateWhiskedImage settled = Inl e"
  let ?s' = "s\<lparr> isLoading := False, error := Some (''Failed to whisk images. '' @ messageOf e),
             console := console s @ [([], e)] \<rparr>"
  from a have "handleWhiskGenerate pf settled s = Inr ?s'"
    by (simp add: handleWhiskGenerate_def caught_def)
  moreover have "error ?s' = Some (''Failed to whisk images. '' @ messageOf e)" by simp
  moreover have "history ?s' = history s" by simp
  moreover have "historyIndex ?s' = historyIndex s" by simp
  moreover have "isLoading ?s' = False" by simp
  ultimately show "\<exists>s'. handleWhiskGenerate pf settled s = Inr s'
            \<and> error s' = Some (''Failed to whisk images. '' @ messageOf e)
            \<and> history s' = history s
            \<and> historyIndex s' = historyIndex s
            \<and> isLoading s' = False" by blast
qed

subsection \<open>Evaluation of the concrete inputs\<close>

lemma digits_now: "digits 1700000000000 = ''1700000000000''"
  by (simp add: digits.simps)

lemma png_url_file:
  "dataURLtoFile browser ''data:image/png;base64,QUJD'' n =
     Inr \<lparr> name = n, type = ''image/png'', bits = ''ABC'' \<rparr>"
  by (simp add: dataURLtoFile_def browser_def makeFile_def isLineTerminator_def lowerAscii_def Let_def)

lemma imageResponse_url:
  "handleApiResponse imageResponse ctx = Inr ''data:image/png;base64,QUJD''"
  by (simp add: handleApiResponse_def imageResponse_def truthy_def blockReasonOf_def
      imagePartFromResponse_def contentParts_def firstCandidate_def pngPart_def textPart_def tmpl_def)

lemma comparedAndClicked_fields:
  "history comparedAndClicked = [picture ''v0'', picture ''v1'']"
  "historyIndex comparedAndClicked = 1"
  "editHotspot comparedAndClicked = Some (10, 10)"
  "compareSliderPosition comparedAndClicked = 30"
  "isLoading comparedAndClicked = False"
  "error comparedAndClicked = None"
  "isCompareModeActive comparedAndClicked = False"
  by (simp_all add: comparedAndClicked_def handleToggleCompareMode_def handleComparerActionEnd_def
      handleComparerMouseDown_def editing_def initialApp_def)


lemma blockedWithImage_thrown:
  "handleApiResponse blockedWithImage ctx =
     Inl (BlockedRequest ''Request was blocked. Reason: SAFETY. '')"
  by (simp add: handleApiResponse_def blockedWithImage_def truthy_def blockReasonOf_def
      tmpl_def orEmpty_def)

lemma stoppedResponse_thrown:
  "handleApiResponse stoppedResponse ''edit'' =
     Inl (AbnormalStop ''Image generation for edit stopped unexpectedly. Reason: SAFETY. This often relates to safety settings.'')"
  by (simp add: handleApiResponse_def stoppedResponse_def truthy_def blockReasonOf_def
      imagePartFromResponse_def contentParts_def firstCandidate_def textPart_def tmpl_def)

lemma one_version_fields:
  "currentImage (editing [picture ''v0''] 0) = Some (picture ''v0'')"
  "history (editing [picture ''v0''] 0) = [picture ''v0'']"
  "historyIndex (editing [picture ''v0''] 0) = 0"
  by (simp_all add: currentImage_def elemAt_def editing_def)

lemma readyToEdit_fields:
  "currentImage readyToEdit = Some (picture ''v0'')"
  "history readyToEdit = [picture ''v0'']"
  "historyIndex readyToEdit = 0"
  "trim (prompt readyToEdit) = ''make sky blue''"
  "editHotspot readyToEdit = Some (10, 10)"
  by (simp_all add: currentImage_def elemAt_def readyToEdit_def editing_def trim_def isWhiteSpace_def)

lemma refusalResponse_thrown:
  "handleApiResponse refusalResponse ''whisk'' =
     Inl (NoImageProduced (''The AI model did not return an image for the whisk. The model responded with text: '' @ [CHR 0x22] @ ''No.'' @ [CHR 0x22]))"
  by (simp add: handleApiResponse_def refusalResponse_def truthy_def blockReasonOf_def
      imagePartFromResponse_def contentParts_def firstCandidate_def textPart_def tmpl_def
      trim_def isWhiteSpace_def)

theorem gateway_failure_caught_witness:
  "gatewayCall (Filter (Inr blockedWithImage)) =
     Some (Inl (BlockedRequest ''Request was blocked. Reason: SAFETY. ''))
   \<and> requestIssued (Filter (Inr blockedWithImage)) (editing [picture ''v0''] 0)
   \<and> (\<exists>s'. runEdit browser (Filter (Inr blockedWithImage)) (editing [picture ''v0''] 0) = Inr s'
           \<and> error s' = Some ''Failed to apply the filter. Request was blocked. Reason: SAFETY. ''
           \<and> history s' = [picture ''v0'']
           \<and> historyIndex s' = 0
           \<and> isLoading s' = False)
   \<and> gatewayCall (LocalizedEdit (Inr stoppedResponse)) =
       Some (Inl (AbnormalStop ''Image generation for edit stopped unexpectedly. Reason: SAFETY. This often relates to safety settings.''))
   \<and> requestIssued (LocalizedEdit (Inr stoppedResponse)) readyToEdit
   \<and> (\<exists>s'. runEdit browser (LocalizedEdit (Inr stoppedResponse)) readyToEdit = Inr s'
           \<and> error s' = Some ''Failed to generate the image. Image generation for edit stopped unexpectedly. Reason: SAFETY. This often relates to safety settings.''
           \<and> history s' = [picture ''v0'']
           \<and> historyIndex s' = 0
           \<and> isLoading s' = False)
   \<and> generateWhiskedImage (Inr refusalResponse) =
       Inl (NoImageProduced (''The AI model did not return an image for the whisk. The model responded with text: '' @ [CHR 0x22] @ ''No.'' @ [CHR 0x22]))
   \<and> (\<exists>s'. handleWhiskGenerate browser (Inr refusalResponse) initialApp = Inr s'
           \<and> error s' = Some (''Failed to whisk images. The AI model did not return an image for the whisk. The model responded with text: '' @ [CHR 0x22] @ ''No.'' @ [CHR 0x22])
           \<and> history s' = []
           \<and> historyIndex s' = - 1
           \<and> isLoading s' = False)"
proof -
  have c1: "gatewayCall (Filter (Inr blockedWithImage)) =
     Some (Inl (BlockedRequest ''Request was blocked. Reason: SAFETY. ''))"
    by (simp add: generateFilteredImage_def classify_def blockedWithImage_thrown)
  have i1: "requestIssued (Filter (Inr blockedWithImage)) (editing [picture ''v0''] 0)"
    by (simp add: one_version_fields)
  have c2: "gatewayCall (LocalizedEdit (Inr stoppedResponse)) =
       Some (Inl (AbnormalStop ''Image generation for edit stopped unexpectedly. Reason: SAFETY. This often relates to safety settings.''))"
    by (simp add: generateEditedImage_def classify_def stoppedResponse_thrown)
  have i2: "requestIssued (LocalizedEdit (Inr stoppedResponse)) readyToEdit"
    by (simp add: readyToEdit_fields)
  have c3: "generateWhiskedImage (Inr refusalResponse) =
       Inl (NoImageProduced (''The AI model did not return an image for the whisk. The model responded with text: '' @ [CHR 0x22] @ ''No.'' @ [CHR 0x22]))"
    by (simp add: generateWhiskedImage_def classify_def refusalResponse_thrown)
  from gateway_failure_caught [where path = "Filter (Inr blockedWithImage)"
      and s = "editing [picture ''v0''] 0" and pf = browser
      and e = "BlockedRequest ''Request was blocked. Reason: SAFETY. ''"] c1 i1
  have 1: "\<exists>s'. runEdit browser (Filter (Inr blockedWithImage)) (editing [picture ''v0''] 0) = Inr s'
           \<and> error s' = Some ''Failed to apply the filter. Request was blocked. Reason: SAFETY. ''
           \<and> history s' = [picture ''v0'']
           \<and> historyIndex s' = 0
           \<and> isLoading s' = False"
    by (simp add: one_version_fields)
  from gateway_failure_caught [where path = "LocalizedEdit (Inr stoppedResponse)"
      and s = readyToEdit and pf = browser
      and e = "AbnormalStop ''Image generation for edit stopped unexpectedly. Reason: SAFETY. This often relates to safety settings.''"] c2 i2
  have 2: "\<exists>s'. runEdit browser (LocalizedEdit (Inr stoppedResponse)) readyToEdit = Inr s'
           \<and> error s' = Some ''Failed to generate the image. Image generation for edit stopped unexpectedly. Reason: SAFETY. This often relates to safety settings.''
           \<and> history s' = [picture ''v0'']
           \<and> historyIndex s' = 0
           \<and> isLoading s' = False"
    by (simp add: readyToEdit_fields)
  from gateway_failure_caught [where settled = "Inr refusalResponse" and s = initialApp
      and pf = browser
      and e = "NoImageProduced (''The AI model did not return an image for the whisk. The model responded with text: '' @ [CHR 0x22] @ ''No.'' @ [CHR 0x22])"] c3
  have 3: "\<exists>s'. handleWhiskGenerate browser (Inr refusalResponse) initialApp = Inr s'
           \<and> error s' = Some (''Failed to whisk images. The AI model did not return an image for the whisk. The model responded with text: '' @ [CHR 0x22] @ ''No.'' @ [CHR 0x22])
           \<and> history s' = []
           \<and> historyIndex s' = - 1
           \<and> isLoading s' = False"
    by (simp add: initialApp_def)
  from c1 i1 1 c2 i2 2 c3 3 show ?thesis by blast
qed

subsection \<open>What an append resets\<close>

lemma addImageToHistory_effects: "appendEffects s f (addImageToHistory f s)"
  by (simp add: appendEffects_def addImageToHistory_def Let_def)

lemma appendEffects_loading:
  "appendEffects (s\<lparr> isLoading := True, error := None \<rparr>) f t \<Longrightarrow>
   appendEffects s f (t\<lparr> isLoading := False \<rparr>)"
  by (simp add: appendEffects_def)

lemma appendEffects_hotspot:
  "appendEffects s f t \<Longrightarrow> appendEffects s f (t\<lparr> editHotspot := None, displayHotspot := None \<rparr>)"
  by (simp add: appendEffects_def)

lemma tryEdit_cases:
  assumes run: "tryEdit pf awaited filePrefix failurePrefix afterAppend s = Inr s'"
    and keep: "\<And>t f. appendEffects s f t \<Longrightarrow> appendEffects s f (afterAppend t)"
  shows "(history s' = history s \<and> historyIndex s' = historyIndex s)
       \<or> (\<exists>f t. s' = (afterAppend t)\<lparr> isLoading := False \<rparr> \<and> appendEffects s f s')"
proof (cases awaited)
  case (Inl e)
  with run have "s' = (caught failurePrefix e (s\<lparr> isLoading := True, error := None \<rparr>))\<lparr> isLoading := False \<rparr>"
    by (simp add: tryEdit_def)
  then show ?thesis by (simp add: caught_def)
next
  case (Inr imageUrl)
  show ?thesis
  proof (cases "dataURLtoFile pf imageUrl (filePrefix @ ''-'' @ digits (dateNow pf) @ ''.png'')")
    case (Inl e)
    with run Inr have "s' = (caught failurePrefix e (s\<lparr> isLoading := True, error := None \<rparr>))\<lparr> isLoading := False \<rparr>"
      by (simp add: tryEdit_def)
    then show ?thesis by (simp add: caught_def)
  next
    case (Inr f)
    let ?t = "addImageToHistory f (s\<lparr> isLoading := True, error := None \<rparr>)"
    from run \<open>awaited = Inr imageUrl\<close> Inr
    have s': "s' = (afterAppend ?t)\<lparr> isLoading := False \<rparr>"
      by (simp add: tryEdit_def)
    have "appendEffects (s\<lparr> isLoading := True, error := None \<rparr>) f ?t"
      by (rule addImageToHistory_effects)
    then have "appendEffects s f ?t" by (simp add: appendEffects_def)
    then have "appendEffects s f (afterAppend ?t)" by (rule keep)
    then have "appendEffects s f s'" unfolding s' by (simp add: appendEffects_def)
    with s' show ?thesis by blast
  qed
qed


lemma guard_untouched:
  "history (s\<lparr> error := m \<rparr>) = history s \<and> historyIndex (s\<lparr> error := m \<rparr>) = historyIndex s"
  by simp

lemma tryEdit_plain:
  assumes run: "tryEdit pf awaited filePrefix failurePrefix (\<lambda>t. t) s = Inr s'"
  shows "(history s' = history s \<and> historyIndex s' = historyIndex s)
       \<or> (\<exists>f. appendEffects s f s')"
  using tryEdit_cases [OF run] by blast

lemma tryEdit_hotspot:
  assumes run: "tryEdit pf awaited filePrefix failurePrefix
                  (\<lambda>t. t\<lparr> editHotspot := None, displayHotspot := None \<rparr>) s = Inr s'"
  shows "(history s' = history s \<and> historyIndex s' = historyIndex s)
       \<or> (\<exists>f. appendEffects s f s' \<and> editHotspot s' = None \<and> displayHotspot s' = None)"
proof -
  from tryEdit_cases [OF run] appendEffects_hotspot
  consider "history s' = history s \<and> historyIndex s' = historyIndex s"
    | f t where "s' = (t\<lparr> editHotspot := None, displayHotspot := None \<rparr>)\<lparr> isLoading := False \<rparr>"
        "appendEffects s f s'"
    by blast
  then show ?thesis
  proof cases
    case 1
    then show ?thesis by blast
  next
    case 2
    from 2(1) have "editHotspot s' = None \<and> displayHotspot s' = None" by simp
    with 2(2) show ?thesis by blast
  qed
qed

lemma handleGenerate_cases:
  assumes run: "handleGenerate pf settled s = Inr s'"
  shows "(history s' = history s \<and> historyIndex s' = historyIndex s)
       \<or> (\<exists>f. appendEffects s f s' \<and> editHotspot s' = None \<and> displayHotspot s' = None)"
proof (cases "requestIssued (LocalizedEdit settled) s")
  case True
  from handleGenerate_issued [OF True, of pf] run tryEdit_hotspot show ?thesis by metis
next
  case False
  with run have "\<exists>m. s' = s\<lparr> error := m \<rparr>"
    by (auto simp add: handleGenerate_def split: if_splits)
  with guard_untouched show ?thesis by metis
qed

lemma handleApplyFilter_cases:
  assumes run: "handleApplyFilter pf settled s = Inr s'"
  shows "(history s' = history s \<and> historyIndex s' = historyIndex s) \<or> (\<exists>f. appendEffects s f s')"
proof (cases "requestIssued (Filter settled) s")
  case True
  from handleApplyFilter_issued [OF True, of pf] run tryEdit_plain show ?thesis by metis
next
  case False
  with run have "\<exists>m. s' = s\<lparr> error := m \<rparr>"
    by (auto simp add: handleApplyFilter_def split: if_splits)
  with guard_untouched show ?thesis by metis
qed

lemma handleApplyAdjustment_cases:
  assumes run: "handleApplyAdjustment pf settled s = Inr s'"
  shows "(history s' = history s \<and> historyIndex s' = historyIndex s) \<or> (\<exists>f. appendEffects s f s')"
proof (cases "requestIssued (Adjustment settled) s")
  case True
  from handleApplyAdjustment_issued [OF True, of pf] run tryEdit_plain show ?thesis by metis
next
  case False
  with run have "\<exists>m. s' = s\<lparr> error := m \<rparr>"
    by (auto simp add: handleApplyAdjustment_def split: if_splits)
  with guard_untouched show ?thesis by metis
qed

lemma handleEnhanceQuality_cases:
  assumes run: "handleEnhanceQuality pf settled s = Inr s'"
  shows "(history s' = history s \<and> historyIndex s' = historyIndex s) \<or> (\<exists>f. appendEffects s f s')"
proof (cases "requestIssued (Enhancement settled) s")
  case True
  from handleEnhanceQuality_issued [OF True, of pf] run tryEdit_plain show ?thesis by metis
next
  case False
  with run have "\<exists>m. s' = s\<lparr> error := m \<rparr>"
    by (auto simp add: handleEnhanceQuality_def split: if_splits)
  with guard_untouched show ?thesis by metis
qed

lemma handleExtendBackdrop_cases:
  assumes run: "handleExtendBackdrop pf settled s = Inr s'"
  shows "(history s' = history s \<and> historyIndex s' = historyIndex s) \<or> (\<exists>f. appendEffects s f s')"
proof (cases "requestIssued (ExtendBackdrop settled) s")
  case True
  from handleExtendBackdrop_issued [OF True, of pf] run tryEdit_plain show ?thesis by metis
next
  case False
  with run have "\<exists>m. s' = s\<lparr> error := m \<rparr>"
    by (auto simp add: handleExtendBackdrop_def split: if_splits)
  with guard_untouched show ?thesis by metis
qed

lemma handleReplaceBackdrop_cases:
  assumes run: "handleReplaceBackdrop pf settled s = Inr s'"
  shows "(history s' = history s \<and> historyIndex s' = historyIndex s) \<or> (\<exists>f. appendEffects s f s')"
proof (cases "requestIssued (ReplaceBackdrop settled) s")
  case True
  from handleReplaceBackdrop_issued [OF True, of pf] run tryEdit_plain show ?thesis by metis
next
  case False
  with run have "\<exists>m. s' = s\<lparr> error := m \<rparr>"
    by (auto simp add: handleReplaceBackdrop_def split: if_splits)
  with guard_untouched show ?thesis by metis
qed

lemma handleApplyCrop_cases:
  assumes run: "handleApplyCrop pf imgMounted canvasDataUrl s = Inr s'"
  shows "(history s' = history s \<and> historyIndex s' = historyIndex s) \<or> (\<exists>f. appendEffects s f s')"
proof -
  from run have "(\<exists>m. s' = s\<lparr> error := m \<rparr>) \<or> (\<exists>f. s' = addImageToHistory f s)"
    by (auto simp add: handleApplyCrop_def split: if_splits option.splits sum.splits)
  with guard_untouched addImageToHistory_effects show ?thesis by metis
qed

lemma runEdit_cases:
  assumes run: "runEdit pf path s = Inr s'"
  shows "(history s' = history s \<and> historyIndex s' = historyIndex s)
       \<or> (\<exists>f. appendEffects s f s' \<and>
              (\<forall>settled. path = LocalizedEdit settled \<longrightarrow>
                 editHotspot s' = None \<and> displayHotspot s' = None))"
proof (cases path)
  case (LocalizedEdit settled)
  with run handleGenerate_cases [of pf settled s s'] show ?thesis by auto
next
  case (Filter settled)
  with run handleApplyFilter_cases [of pf settled s s'] show ?thesis by auto
next
  case (Adjustment settled)
  with run handleApplyAdjustment_cases [of pf settled s s'] show ?thesis by auto
next
  case (Enhancement settled)
  with run handleEnhanceQuality_cases [of pf settled s s'] show ?thesis by auto
next
  case (ExtendBackdrop settled)
  with run handleExtendBackdrop_cases [of pf settled s s'] show ?thesis by auto
next
  case (ReplaceBackdrop settled)
  with run handleReplaceBackdrop_cases [of pf settled s s'] show ?thesis by auto
next
  case (CropImage imgMounted canvasDataUrl)
  with run handleApplyCrop_cases [of pf imgMounted canvasDataUrl s s'] show ?thesis by auto
qed

text \<open>
  C3. An append closes the comparison and clears the crop selection, and leaves the
  slider position as it was. Every run of an edit handler that resolves either leaves
  the history and the cursor alone or has appended one File, with these effects; when
  the handler is the localized edit, the pending hotspot is cleared as well. The slider
  is set to 50 when the comparison is next opened.
\<close>

theorem append_effects:
  "(\<not> isCompareModeActive (addImageToHistory f s)
      \<and> crop (addImageToHistory f s) = None
      \<and> completedCrop (addImageToHistory f s) = None
      \<and> compareSliderPosition (addImageToHistory f s) = compareSliderPosition s)
   \<and> (runEdit pf path s = Inr s' \<longrightarrow>
        (history s' = history s \<and> historyIndex s' = historyIndex s)
        \<or> (\<exists>newImageFile.
              history s' = slice0 (history s) (historyIndex s + 1) @ [newImageFile]
              \<and> historyIndex s' = int (length (history s')) - 1
              \<and> \<not> isCompareModeActive s'
              \<and> crop s' = None
              \<and> completedCrop s' = None
              \<and> compareSliderPosition s' = compareSliderPosition s
              \<and> (\<forall>settled. path = LocalizedEdit settled \<longrightarrow>
                    editHotspot s' = None \<and> displayHotspot s' = None)))
   \<and> (\<not> isCompareModeActive t \<longrightarrow>
        isCompareModeActive (handleToggleCompareMode t)
        \<and> compareSliderPosition (handleToggleCompareMode t) = 50)"
proof (intro conjI impI)
  show "\<not> isCompareModeActive (addImageToHistory f s)"
    and "crop (addImageToHistory f s) = None"
    and "completedCrop (addImageToHistory f s) = None"
    and "compareSliderPosition (addImageToHistory f s) = compareSliderPosition s"
    by (simp_all add: addImageToHistory_def Let_def)
next
  assume "runEdit pf path s = Inr s'"
  from runEdit_cases [OF this]
  show "(history s' = history s \<and> historyIndex s' = historyIndex s)
        \<or> (\<exists>newImageFile.
              history s' = slice0 (history s) (historyIndex s + 1) @ [newImageFile]
              \<and> historyIndex s' = int (length (history s')) - 1
              \<and> \<not> isCompareModeActive s'
              \<and> crop s' = None
              \<and> completedCrop s' = None
              \<and> compareSliderPosition s' = compareSliderPosition s
              \<and> (\<forall>settled. path = LocalizedEdit settled \<longrightarrow>
                    editHotspot s' = None \<and> displayHotspot s' = None))"
    unfolding appendEffects_def by blast
next
  assume "\<not> isCompareModeActive t"
  then show "isCompareModeActive (handleToggleCompareMode t)"
    and "compareSliderPosition (handleToggleCompareMode t) = 50"
    by (simp_all add: handleToggleCompareMode_def)
qed


lemma browser_date: "dateNow browser = 1700000000000"
  by (simp add: browser_def)

lemma filter_on_comparedAndClicked:
  "handleApplyFilter browser (Inr imageResponse) comparedAndClicked =
     Inr (addImageToHistory filteredPicture comparedAndClicked)"
proof -
  have cur: "requestIssued (Filter (Inr imageResponse)) comparedAndClicked"
    by (simp add: currentImage_def elemAt_def comparedAndClicked_fields)
  have idle: "comparedAndClicked\<lparr> isLoading := False, error := None \<rparr> = comparedAndClicked"
    by (simp add: comparedAndClicked_fields)
  have "handleApplyFilter browser (Inr imageResponse) comparedAndClicked =
     Inr ((addImageToHistory filteredPicture
            (comparedAndClicked\<lparr> isLoading := True, error := None \<rparr>))\<lparr> isLoading := False \<rparr>)"
    unfolding handleApplyFilter_issued [OF cur]
    by (simp add: tryEdit_def generateFilteredImage_def classify_def imageResponse_url
        browser_date digits_now png_url_file filteredPicture_def)
  also have "(addImageToHistory filteredPicture
            (comparedAndClicked\<lparr> isLoading := True, error := None \<rparr>))\<lparr> isLoading := False \<rparr> =
      addImageToHistory filteredPicture (comparedAndClicked\<lparr> isLoading := False, error := None \<rparr>)"
    by (simp add: addImageToHistory_def Let_def)
  finally show ?thesis by (simp only: idle)
qed

text \<open>
  An append that keeps the hotspot and the slider: after a comparison with the slider
  dragged to 30 and a click on the image, a filter is applied. The new version is
  appended, the hotspot is still the clicked point and the slider is still at 30.
\<close>

theorem append_clears_hotspot_counterexample:
  "handleApplyFilter browser (Inr imageResponse) comparedAndClicked =
     Inr (addImageToHistory filteredPicture comparedAndClicked)
   \<and> history comparedAndClicked = [picture ''v0'', picture ''v1'']
   \<and> history (addImageToHistory filteredPicture comparedAndClicked) =
       [picture ''v0'', picture ''v1'', filteredPicture]
   \<and> editHotspot (addImageToHistory filteredPicture comparedAndClicked) = Some (10, 10)
   \<and> compareSliderPosition (addImageToHistory filteredPicture comparedAndClicked) = 30
   \<and> \<not> (editHotspot (addImageToHistory filteredPicture comparedAndClicked) = None
          \<and> compareSliderPosition (addImageToHistory filteredPicture comparedAndClicked) = 50)"
  by (simp add: filter_on_comparedAndClicked addImageToHistory_def Let_def slice0_def
      comparedAndClicked_fields)


lemma readyToEdit_idle:
  "readyToEdit\<lparr> isLoading := False, error := None \<rparr> = readyToEdit"
  by (simp add: readyToEdit_def editing_def initialApp_def)

lemma edit_on_readyToEdit:
  "handleGenerate browser (Inr imageResponse) readyToEdit =
     Inr ((addImageToHistory editedPicture readyToEdit)
            \<lparr> editHotspot := None, displayHotspot := None \<rparr>)"
proof -
  have cur: "requestIssued (LocalizedEdit (Inr imageResponse)) readyToEdit"
    by (simp add: readyToEdit_fields)
  have "handleGenerate browser (Inr imageResponse) readyToEdit =
     Inr ((addImageToHistory editedPicture (readyToEdit\<lparr> isLoading := True, error := None \<rparr>))
            \<lparr> editHotspot := None, displayHotspot := None, isLoading := False \<rparr>)"
    unfolding handleGenerate_issued [OF cur]
    by (simp add: tryEdit_def generateEditedImage_def classify_def imageResponse_url
        browser_date digits_now png_url_file editedPicture_def)
  also have "(addImageToHistory editedPicture (readyToEdit\<lparr> isLoading := True, error := None \<rparr>))
            \<lparr> editHotspot := None, displayHotspot := None, isLoading := False \<rparr> =
      (addImageToHistory editedPicture (readyToEdit\<lparr> isLoading := False, error := None \<rparr>))
            \<lparr> editHotspot := None, displayHotspot := None \<rparr>"
    by (simp add: addImageToHistory_def Let_def)
  finally show ?thesis by (simp only: readyToEdit_idle)
qed

theorem append_effects_witness:
  "runEdit browser (LocalizedEdit (Inr imageResponse)) readyToEdit =
     Inr ((addImageToHistory editedPicture readyToEdit)
            \<lparr> editHotspot := None, displayHotspot := None \<rparr>)
   \<and> history ((addImageToHistory editedPicture readyToEdit)
            \<lparr> editHotspot := None, displayHotspot := None \<rparr>) = [picture ''v0'', editedPicture]
   \<and> \<not> isCompareModeActive ((addImageToHistory editedPicture readyToEdit)
            \<lparr> editHotspot := None, displayHotspot := None \<rparr>)
   \<and> compareSliderPosition ((addImageToHistory editedPicture readyToEdit)
            \<lparr> editHotspot := None, displayHotspot := None \<rparr>) = compareSliderPosition readyToEdit
   \<and> editHotspot ((addImageToHistory editedPicture readyToEdit)
            \<lparr> editHotspot := None, displayHotspot := None \<rparr>) = None
   \<and> \<not> isCompareModeActive comparedAndClicked
   \<and> isCompareModeActive (handleToggleCompareMode comparedAndClicked)
   \<and> compareSliderPosition (handleToggleCompareMode comparedAndClicked) = 50"
proof -
  let ?s' = "(addImageToHistory editedPicture readyToEdit)
               \<lparr> editHotspot := None, displayHotspot := None \<rparr>"
  have run: "runEdit browser (LocalizedEdit (Inr imageResponse)) readyToEdit = Inr ?s'"
    by (simp add: edit_on_readyToEdit)
  have hist: "history ?s' = [picture ''v0'', editedPicture]"
    by (simp add: addImageToHistory_def Let_def slice0_def readyToEdit_fields)
  then have changed: "\<not> (history ?s' = history readyToEdit \<and> historyIndex ?s' = historyIndex readyToEdit)"
    by (simp add: readyToEdit_fields)
  have off: "\<not> isCompareModeActive comparedAndClicked"
    by (simp add: comparedAndClicked_fields)
  note inst = append_effects [where f = editedPicture and s = readyToEdit and pf = browser
      and path = "LocalizedEdit (Inr imageResponse)" and s' = ?s' and t = comparedAndClicked]
  from inst run changed
  have 1: "\<not> isCompareModeActive ?s'
     \<and> compareSliderPosition ?s' = compareSliderPosition readyToEdit
     \<and> editHotspot ?s' = None"
    by blast
  from inst off
  have 2: "isCompareModeActive (handleToggleCompareMode comparedAndClicked)
     \<and> compareSliderPosition (handleToggleCompareMode comparedAndClicked) = 50"
    by blast
  from run hist 1 off 2 show ?thesis by blast
qed

subsection \<open>The batch run\<close>

lemma completionOrder_set:
  assumes "completionOrder n order"
  shows "set order = {0..<n}"
proof -
  from assms have d: "distinct order" and b: "\<forall>i\<in>set order. i < n" and l: "length order = n"
    by (simp_all add: completionOrder_def list_all_iff)
  from b have sub: "set order \<subseteq> {0..<n}" by auto
  from d l have "card (set order) = n" by (simp add: distinct_card)
  then have "card (set order) = card {0..<n}" by simp
  with sub show ?thesis by (simp add: card_subset_eq)
qed

lemma settle_fst:
  "fst (settle pf generator prompt' type' images i (results, s)) =
     (if i < length images
      then results[i := Some (settledResultOf (processImage pf generator prompt' type' (images ! i) i))]
      else results)"
  by (simp add: settle_def settledResultOf_def split: sum.splits)

lemma fold_settle_results:
  assumes "length results = length images"
  shows "fst (fold (settle pf generator prompt' type' images) order (results, s)) =
     map (\<lambda>i. if i \<in> set order
               then Some (settledResultOf (processImage pf generator prompt' type' (images ! i) i))
               else results ! i) [0..<length images]"
  using assms
proof (induction order arbitrary: results s)
  case Nil
  then have "map ((!) results) [0..<length images] = results"
    by (metis map_nth)
  then show ?case by simp
next
  case (Cons i order)
  obtain r1 s1 where step: "settle pf generator prompt' type' images i (results, s) = (r1, s1)"
    by (cases "settle pf generator prompt' type' images i (results, s)")
  from settle_fst [of pf generator prompt' type' images i results s] step
  have r1: "r1 = (if i < length images
      then results[i := Some (settledResultOf (processImage pf generator prompt' type' (images ! i) i))]
      else results)" by simp
  with Cons.prems have len: "length r1 = length images" by simp
  have "fst (fold (settle pf generator prompt' type' images) (i # order) (results, s)) =
        fst (fold (settle pf generator prompt' type' images) order (r1, s1))"
    by (simp add: step)
  also have "\<dots> = map (\<lambda>j. if j \<in> set order
               then Some (settledResultOf (processImage pf generator prompt' type' (images ! j) j))
               else r1 ! j) [0..<length images]"
    by (rule Cons.IH [OF len])
  also have "\<dots> = map (\<lambda>j. if j \<in> set (i # order)
               then Some (settledResultOf (processImage pf generator prompt' type' (images ! j) j))
               else results ! j) [0..<length images]"
    using Cons.prems by (auto simp add: r1 nth_list_update)
  finally show ?case .
qed


lemma settle_snd_error:
  "error (snd (settle pf generator prompt' type' images i (results, s))) = error s"
  by (simp add: settle_def bumpProgress_def split: sum.splits)

lemma fold_settle_error:
  "error (snd (fold (settle pf generator prompt' type' images) order (results, s))) = error s"
proof (induction order arbitrary: results s)
  case Nil
  show ?case by simp
next
  case (Cons i order)
  obtain r1 s1 where step: "settle pf generator prompt' type' images i (results, s) = (r1, s1)"
    by (cases "settle pf generator prompt' type' images i (results, s)")
  from settle_snd_error [of pf generator prompt' type' images i results s] step
  have "error s1 = error s" by simp
  moreover have "error (snd (fold (settle pf generator prompt' type' images) order (r1, s1))) = error s1"
    by (rule Cons.IH)
  ultimately show ?case by (simp add: step)
qed

lemma settle_snd_console:
  "console (snd (settle pf generator prompt' type' images i (results, s))) =
     console s @
     (if i < length images
      then (case processImage pf generator prompt' type' (images ! i) i of
              Inl err \<Rightarrow> [(failureLabel images i, err)] | Inr newFile \<Rightarrow> [])
      else [])"
  by (simp add: settle_def bumpProgress_def split: sum.splits)

lemma fold_settle_console_mono:
  "set (console s) \<subseteq>
   set (console (snd (fold (settle pf generator prompt' type' images) order (results, s))))"
proof (induction order arbitrary: results s)
  case Nil
  show ?case by simp
next
  case (Cons i order)
  obtain r1 s1 where step: "settle pf generator prompt' type' images i (results, s) = (r1, s1)"
    by (cases "settle pf generator prompt' type' images i (results, s)")
  from settle_snd_console [of pf generator prompt' type' images i results s] step
  have "\<exists>extra. console s1 = console s @ extra" by simp
  then have "set (console s) \<subseteq> set (console s1)" by auto
  moreover have "set (console s1) \<subseteq>
     set (console (snd (fold (settle pf generator prompt' type' images) order (r1, s1))))"
    by (rule Cons.IH)
  ultimately show ?case by (auto simp add: step)
qed

lemma fold_settle_console_logged:
  assumes "i \<in> set order" and "i < length images"
    and "processImage pf generator prompt' type' (images ! i) i = Inl e"
  shows "(failureLabel images i, e) \<in>
     set (console (snd (fold (settle pf generator prompt' type' images) order (results, s))))"
  using assms(1)
proof (induction order arbitrary: results s)
  case Nil
  then show ?case by simp
next
  case (Cons j order)
  obtain r1 s1 where step: "settle pf generator prompt' type' images j (results, s) = (r1, s1)"
    by (cases "settle pf generator prompt' type' images j (results, s)")
  show ?case
  proof (cases "i = j")
    case True
    from settle_snd_console [of pf generator prompt' type' images j results s] step True assms(2,3)
    have "(failureLabel images i, e) \<in> set (console s1)" by simp
    moreover have "set (console s1) \<subseteq>
       set (console (snd (fold (settle pf generator prompt' type' images) order (r1, s1))))"
      by (rule fold_settle_console_mono)
    ultimately show ?thesis by (auto simp add: step)
  next
    case False
    with Cons.prems have "i \<in> set order" by simp
    then have "(failureLabel images i, e) \<in>
       set (console (snd (fold (settle pf generator prompt' type' images) order (r1, s1))))"
      by (rule Cons.IH)
    then show ?thesis by (simp add: step)
  qed
qed

lemma produced_filter:
  "filter (\<lambda>img. img = None) (map (produced pf generator prompt' type' images) xs) =
   map (produced pf generator prompt' type' images)
     (filter (\<lambda>i. \<not> succeeded pf generator prompt' type' images i) xs)"
  by (induction xs) (auto simp add: produced_def succeeded_def split: sum.splits)

lemma handleBatchApply_run:
  assumes co: "completionOrder (length (batchImages s)) order"
  shows "\<exists>s'. handleBatchApply pf prompt' generator type' order s = Some s'
     \<and> processedBatchImages s' =
         map (produced pf generator prompt' type' (batchImages s)) [0..<length (batchImages s)]
     \<and> isLoading s' = False
     \<and> isBatchProcessingComplete s' = True
     \<and> processingProgress s' = None
     \<and> error s' =
         (if 0 < failures pf generator prompt' type' (batchImages s)
          then Some (batchWarning (failures pf generator prompt' type' (batchImages s))
                       (length (batchImages s)))
          else None)
     \<and> (\<forall>i < length (batchImages s). \<forall>e.
           processImage pf generator prompt' type' (batchImages s ! i) i = Inl e \<longrightarrow>
           (failureLabel (batchImages s) i, e) \<in> set (console s'))"
proof -
  let ?images = "batchImages s"
  let ?n = "length ?images"
  let ?s1 = "s\<lparr> isLoading := True, error := None, isBatchProcessingComplete := False,
                  processingProgress := Some \<lparr> processed = 0, total = ?n \<rparr> \<rparr>"
  let ?out = "\<lambda>i. processImage pf generator prompt' type' (?images ! i) i"
  obtain results s2 where
    run: "fold (settle pf generator prompt' type' ?images) order (replicate ?n None, ?s1) = (results, s2)"
    by (cases "fold (settle pf generator prompt' type' ?images) order (replicate ?n None, ?s1)")
  from co have so: "set order = {0..<?n}" by (rule completionOrder_set)
  have "results = map (\<lambda>i. if i \<in> set order then Some (settledResultOf (?out i))
                             else replicate ?n None ! i) [0..<?n]"
    using fold_settle_results [of "replicate ?n None" ?images pf generator prompt' type' order ?s1] run
    by simp
  with so have res: "results = map (\<lambda>i. Some (settledResultOf (?out i))) [0..<?n]"
    by simp
  then have all: "list_all (\<lambda>r. r \<noteq> None) results"
    by (simp add: list_all_iff)
  let ?new = "map (\<lambda>r. case r of Some (Fulfilled v) \<Rightarrow> Some v | _ \<Rightarrow> None) results"
  have new: "?new = map (produced pf generator prompt' type' ?images) [0..<?n]"
    unfolding res
    by (simp add: produced_def settledResultOf_def split: sum.splits)
  have cnt: "length (filter (\<lambda>img. img = None) ?new) = failures pf generator prompt' type' ?images"
    unfolding new produced_filter failures_def by simp
  have err2: "error s2 = None"
    using fold_settle_error [of pf generator prompt' type' ?images order "replicate ?n None" ?s1] run
    by simp
  have log2: "\<forall>i < ?n. \<forall>e. ?out i = Inl e \<longrightarrow> (failureLabel ?images i, e) \<in> set (console s2)"
  proof (intro allI impI)
    fix i e assume "i < ?n" and "?out i = Inl e"
    moreover from \<open>i < ?n\<close> so have "i \<in> set order" by simp
    ultimately show "(failureLabel ?images i, e) \<in> set (console s2)"
      using fold_settle_console_logged [of i order ?images pf generator prompt' type' e
          "replicate ?n None" ?s1] run
      by simp
  qed
  let ?s3 = "s2\<lparr> processedBatchImages := ?new, isLoading := False,
                   isBatchProcessingComplete := True, processingProgress := None \<rparr>"
  let ?k = "failures pf generator prompt' type' ?images"
  let ?s' = "if 0 < ?k then ?s3\<lparr> error := Some (batchWarning ?k ?n) \<rparr> else ?s3"
  have fin: "finishBatch ?images results s2 = ?s'"
    unfolding finishBatch_def Let_def cnt by (rule refl)
  have "handleBatchApply pf prompt' generator type' order s = Some (finishBatch ?images results s2)"
    using all by (simp add: handleBatchApply_def Let_def run)
  then have "handleBatchApply pf prompt' generator type' order s = Some ?s'"
    by (simp only: fin)
  moreover have "processedBatchImages ?s' = map (produced pf generator prompt' type' ?images) [0..<?n]"
    using new by simp
  moreover have "isLoading ?s' = False" "isBatchProcessingComplete ?s' = True"
    "processingProgress ?s' = None" by simp_all
  moreover have "error ?s' = (if 0 < ?k then Some (batchWarning ?k ?n) else None)"
    using err2 by simp
  moreover have "\<forall>i < ?n. \<forall>e. ?out i = Inl e \<longrightarrow> (failureLabel ?images i, e) \<in> set (console ?s')"
    using log2 by simp
  ultimately show ?thesis by blast
qed

lemma failures_positive:
  assumes "i < length images" and "\<not> succeeded pf generator prompt' type' images i"
  shows "0 < failures pf generator prompt' type' images"
proof -
  from assms have "i \<in> set (filter (\<lambda>i. \<not> succeeded pf generator prompt' type' images i) [0..<length images])"
    by simp
  then have "filter (\<lambda>i. \<not> succeeded pf generator prompt' type' images i) [0..<length images] \<noteq> []"
    by (metis empty_iff empty_set)
  then show ?thesis by (simp add: failures_def)
qed

lemma failures_all:
  assumes "\<forall>i < length images. \<not> succeeded pf generator prompt' type' images i"
  shows "failures pf generator prompt' type' images = length images"
proof -
  from assms have "filter (\<lambda>i. \<not> succeeded pf generator prompt' type' images i) [0..<length images] = [0..<length images]"
    by (simp add: filter_id_conv)
  then show ?thesis by (simp add: failures_def)
qed

text \<open>
  C6. Whatever the order in which the callbacks of a batch settle, the handler returns,
  and the output has one slot per input image: slot \<open>i\<close> holds the File of callback
  \<open>i\<close> when that callback was fulfilled and is absent when it was rejected. The
  output does not depend on the output of an earlier run.
\<close>

theorem batch_output_aligned:
  assumes co: "completionOrder (length (batchImages s)) order"
  shows "\<exists>s'. handleBatchApply pf prompt' generator type' order s = Some s'
     \<and> length (processedBatchImages s') = length (batchImages s)
     \<and> (\<forall>i < length (batchImages s).
           (processedBatchImages s' ! i \<noteq> None) =
             succeeded pf generator prompt' type' (batchImages s) i)
     \<and> processedBatchImages s' =
         map (produced pf generator prompt' type' (batchImages s)) [0..<length (batchImages s)]
     \<and> (\<forall>previous. \<exists>t.
           handleBatchApply pf prompt' generator type' order
             (s\<lparr> processedBatchImages := previous \<rparr>) = Some t
           \<and> processedBatchImages t = processedBatchImages s')"
proof -
  let ?n = "length (batchImages s)"
  let ?out = "map (produced pf generator prompt' type' (batchImages s)) [0..<?n]"
  from handleBatchApply_run [OF co, of pf prompt' generator type']
  obtain s' where run: "handleBatchApply pf prompt' generator type' order s = Some s'"
    and out: "processedBatchImages s' = ?out" by blast
  from out have len: "length (processedBatchImages s') = ?n" by simp
  have iff: "\<forall>i < ?n. (processedBatchImages s' ! i \<noteq> None) =
             succeeded pf generator prompt' type' (batchImages s) i"
    by (simp add: out produced_def succeeded_def split: sum.splits)
  have again: "\<forall>previous. \<exists>t.
           handleBatchApply pf prompt' generator type' order
             (s\<lparr> processedBatchImages := previous \<rparr>) = Some t
           \<and> processedBatchImages t = processedBatchImages s'"
  proof
    fix previous
    let ?p = "s\<lparr> processedBatchImages := previous \<rparr>"
    from co have "completionOrder (length (batchImages ?p)) order" by simp
    from handleBatchApply_run [OF this, of pf prompt' generator type']
    obtain t where "handleBatchApply pf prompt' generator type' order ?p = Some t"
      and "processedBatchImages t =
         map (produced pf generator prompt' type' (batchImages ?p)) [0..<length (batchImages ?p)]"
      by blast
    with out show "\<exists>t. handleBatchApply pf prompt' generator type' order ?p = Some t
           \<and> processedBatchImages t = processedBatchImages s'" by simp
  qed
  from run len iff out again show ?thesis by blast
qed

text \<open>
  C7. When at least one callback of a batch fails, the Files of the fulfilled callbacks
  are kept in their slots, the slots of the failed ones are absent, and \<open>error\<close>
  holds one warning that gives the number of failed images and the number of images
  and nothing of the single failures; each failure is in the console log with its
  thrown value.
\<close>

theorem batch_failures_aggregated:
  assumes co: "completionOrder (length (batchImages s)) order"
    and failed: "\<exists>i < length (batchImages s). \<not> succeeded pf generator prompt' type' (batchImages s) i"
  shows "\<exists>s'. handleBatchApply pf prompt' generator type' order s = Some s'
     \<and> (\<forall>i < length (batchImages s). \<forall>newFile.
           processImage pf generator prompt' type' (batchImages s ! i) i = Inr newFile \<longrightarrow>
           processedBatchImages s' ! i = Some newFile)
     \<and> (\<forall>i < length (batchImages s). \<forall>err.
           processImage pf generator prompt' type' (batchImages s ! i) i = Inl err \<longrightarrow>
           processedBatchImages s' ! i = None
           \<and> (failureLabel (batchImages s) i, err) \<in> set (console s'))
     \<and> error s' =
         Some (digits (failures pf generator prompt' type' (batchImages s)) @ '' out of '' @
               digits (length (batchImages s)) @
               '' image(s) could not be processed. They may have been blocked due to safety policies.'')"
proof -
  let ?n = "length (batchImages s)"
  let ?k = "failures pf generator prompt' type' (batchImages s)"
  from failed have pos: "0 < ?k" using failures_positive by blast
  from handleBatchApply_run [OF co, of pf prompt' generator type']
  obtain s' where run: "handleBatchApply pf prompt' generator type' order s = Some s'"
    and out: "processedBatchImages s' =
         map (produced pf generator prompt' type' (batchImages s)) [0..<?n]"
    and err: "error s' = (if 0 < ?k then Some (batchWarning ?k ?n) else None)"
    and log: "\<forall>i < ?n. \<forall>e.
           processImage pf generator prompt' type' (batchImages s ! i) i = Inl e \<longrightarrow>
           (failureLabel (batchImages s) i, e) \<in> set (console s')"
    by blast
  have kept: "\<forall>i < ?n. \<forall>newFile.
           processImage pf generator prompt' type' (batchImages s ! i) i = Inr newFile \<longrightarrow>
           processedBatchImages s' ! i = Some newFile"
    by (simp add: out produced_def)
  have absent: "\<forall>i < ?n. \<forall>e.
           processImage pf generator prompt' type' (batchImages s ! i) i = Inl e \<longrightarrow>
           processedBatchImages s' ! i = None"
    by (simp add: out produced_def)
  from err pos have warn: "error s' =
         Some (digits ?k @ '' out of '' @ digits ?n @
               '' image(s) could not be processed. They may have been blocked due to safety policies.'')"
    by (simp add: batchWarning_def)
  from run kept absent log warn show ?thesis by blast
qed

text \<open>
  C10. When every callback of a non-empty batch fails, the handler returns as in the
  partial case: every slot is absent, the run is marked complete, the loading flag is
  cleared and the warning counts all images as failed.
\<close>

theorem batch_all_failed:
  assumes co: "completionOrder (length (batchImages s)) order"
    and some: "0 < length (batchImages s)"
    and failed: "\<forall>i < length (batchImages s). \<not> succeeded pf generator prompt' type' (batchImages s) i"
  shows "\<exists>s'. handleBatchApply pf prompt' generator type' order s = Some s'
     \<and> processedBatchImages s' = replicate (length (batchImages s)) None
     \<and> isBatchProcessingComplete s'
     \<and> \<not> isLoading s'
     \<and> error s' =
         Some (digits (length (batchImages s)) @ '' out of '' @ digits (length (batchImages s)) @
               '' image(s) could not be processed. They may have been blocked due to safety policies.'')"
proof -
  let ?n = "length (batchImages s)"
  let ?k = "failures pf generator prompt' type' (batchImages s)"
  from failed have k: "?k = ?n" by (rule failures_all)
  from handleBatchApply_run [OF co, of pf prompt' generator type']
  obtain s' where run: "handleBatchApply pf prompt' generator type' order s = Some s'"
    and out: "processedBatchImages s' =
         map (produced pf generator prompt' type' (batchImages s)) [0..<?n]"
    and fin: "isLoading s' = False" "isBatchProcessingComplete s' = True"
    and err: "error s' = (if 0 < ?k then Some (batchWarning ?k ?n) else None)"
    by blast
  from failed have "\<forall>i < ?n. produced pf generator prompt' type' (batchImages s) i = None"
    by (auto simp add: produced_def succeeded_def split: sum.splits)
  then have "map (produced pf generator prompt' type' (batchImages s)) [0..<?n] =
      map (\<lambda>i. None) [0..<?n]"
    by (intro map_cong) simp_all
  then have "map (produced pf generator prompt' type' (batchImages s)) [0..<?n] = replicate ?n None"
    by (simp add: map_replicate_const)
  with out have none: "processedBatchImages s' = replicate ?n None" by simp
  from err k some have warn: "error s' =
         Some (digits ?n @ '' out of '' @ digits ?n @
               '' image(s) could not be processed. They may have been blocked due to safety policies.'')"
    by (simp add: batchWarning_def)
  from run none fin warn show ?thesis by blast
qed


lemma uploadedBatch_images:
  "batchImages uploadedBatch = threeImages"
  "length (batchImages uploadedBatch) = 3"
  by (simp_all add: uploadedBatch_def handleBatchUpload_def threeImages_def)

lemma threeImages_length: "length threeImages = 3"
  by (simp add: threeImages_def)

lemma order_201: "completionOrder 3 [2, 0, 1]"
  by (simp add: completionOrder_def)

lemma upt_3: "[0..<3] = [0, 1, 2]"
  by (simp add: upt_rec)

lemma digits_small:
  "digits 0 = ''0''" "digits 1 = ''1''" "digits 2 = ''2''" "digits 3 = ''3''"
  "digits (Suc 0) = ''1''"
  by (simp_all add: digits.simps)

lemma secondBlocked_runs:
  "processImage browser secondBlocked ''sepia'' ''filtered'' (threeImages ! 0) 0 =
     Inr (sepia ''filtered-0-a.png'')"
  "processImage browser secondBlocked ''sepia'' ''filtered'' (threeImages ! 1) 1 =
     Inl (BlockedRequest ''Request was blocked. Reason: SAFETY. '')"
  "processImage browser secondBlocked ''sepia'' ''filtered'' (threeImages ! 2) 2 =
     Inr (sepia ''filtered-2-c.png'')"
  by (simp_all add: processImage_def secondBlocked_def generateFilteredImage_def classify_def
      imageResponse_url blockedWithImage_thrown png_url_file digits_small threeImages_def
      picture_def sepia_def)

lemma secondBlocked_runs_Suc:
  "processImage browser secondBlocked ''sepia'' ''filtered'' (threeImages ! Suc 0) (Suc 0) =
     Inl (BlockedRequest ''Request was blocked. Reason: SAFETY. '')"
  "processImage browser secondBlocked ''sepia'' ''filtered'' (threeImages ! Suc (Suc 0)) (Suc (Suc 0)) =
     Inr (sepia ''filtered-2-c.png'')"
  using secondBlocked_runs(2,3) by (simp_all add: numeral_2_eq_2)

lemma allBlocked_runs:
  "processImage browser allBlocked ''sepia'' ''filtered'' img i =
     Inl (BlockedRequest ''Request was blocked. Reason: SAFETY. '')"
  by (simp add: processImage_def allBlocked_def generateFilteredImage_def classify_def
      blockedWithImage_thrown)

lemma secondBlocked_produced:
  "map (produced browser secondBlocked ''sepia'' ''filtered'' threeImages) [0..<3] =
     [Some (sepia ''filtered-0-a.png''), None, Some (sepia ''filtered-2-c.png'')]"
  by (simp add: upt_3 produced_def secondBlocked_runs secondBlocked_runs_Suc)

lemma secondBlocked_failures:
  "failures browser secondBlocked ''sepia'' ''filtered'' threeImages = 1"
  by (simp add: failures_def threeImages_length upt_3 succeeded_def
      secondBlocked_runs secondBlocked_runs_Suc)

theorem batch_output_aligned_witness:
  "completionOrder (length (batchImages uploadedBatch)) [2, 0, 1]
   \<and> (\<exists>s'. handleBatchApply browser ''sepia'' secondBlocked ''filtered'' [2, 0, 1] uploadedBatch = Some s'
          \<and> processedBatchImages s' =
              [Some (sepia ''filtered-0-a.png''), None, Some (sepia ''filtered-2-c.png'')])"
proof -
  have co: "completionOrder (length (batchImages uploadedBatch)) [2, 0, 1]"
    unfolding uploadedBatch_images(2) by (rule order_201)
  from batch_output_aligned [OF co, of browser "''sepia''" secondBlocked "''filtered''"]
  obtain s' where
    "handleBatchApply browser ''sepia'' secondBlocked ''filtered'' [2, 0, 1] uploadedBatch = Some s'"
    and "processedBatchImages s' =
       map (produced browser secondBlocked ''sepia'' ''filtered'' (batchImages uploadedBatch))
         [0..<length (batchImages uploadedBatch)]"
    by blast
  then have "handleBatchApply browser ''sepia'' secondBlocked ''filtered'' [2, 0, 1] uploadedBatch = Some s'
     \<and> processedBatchImages s' =
              [Some (sepia ''filtered-0-a.png''), None, Some (sepia ''filtered-2-c.png'')]"
    by (simp add: uploadedBatch_images threeImages_length secondBlocked_produced)
  with co show ?thesis by blast
qed

theorem batch_failures_aggregated_witness:
  "completionOrder (length (batchImages uploadedBatch)) [2, 0, 1]
   \<and> (\<exists>i < length (batchImages uploadedBatch).
         \<not> succeeded browser secondBlocked ''sepia'' ''filtered'' (batchImages uploadedBatch) i)
   \<and> (\<exists>s'. handleBatchApply browser ''sepia'' secondBlocked ''filtered'' [2, 0, 1] uploadedBatch = Some s'
          \<and> processedBatchImages s' ! 0 = Some (sepia ''filtered-0-a.png'')
          \<and> processedBatchImages s' ! 1 = None
          \<and> (''Failed to process image 1 (b.png):'',
               BlockedRequest ''Request was blocked. Reason: SAFETY. '') \<in> set (console s')
          \<and> error s' = Some ''1 out of 3 image(s) could not be processed. They may have been blocked due to safety policies.'')"
proof -
  let ?images = "batchImages uploadedBatch"
  have co: "completionOrder (length ?images) [2, 0, 1]"
    unfolding uploadedBatch_images(2) by (rule order_201)
  have "(1::nat) < length ?images
      \<and> \<not> succeeded browser secondBlocked ''sepia'' ''filtered'' ?images 1"
    by (simp add: uploadedBatch_images threeImages_length succeeded_def secondBlocked_runs secondBlocked_runs_Suc)
  then have failed: "\<exists>i < length ?images.
         \<not> succeeded browser secondBlocked ''sepia'' ''filtered'' ?images i"
    by blast
  have r0: "(0::nat) < length ?images"
    "processImage browser secondBlocked ''sepia'' ''filtered'' (?images ! 0) 0 =
       Inr (sepia ''filtered-0-a.png'')"
    and r1: "(1::nat) < length ?images"
    "processImage browser secondBlocked ''sepia'' ''filtered'' (?images ! 1) 1 =
       Inl (BlockedRequest ''Request was blocked. Reason: SAFETY. '')"
    by (simp_all add: uploadedBatch_images threeImages_length secondBlocked_runs secondBlocked_runs_Suc)
  have label: "failureLabel ?images 1 = ''Failed to process image 1 (b.png):''"
    by (simp add: failureLabel_def uploadedBatch_images(1) digits_small threeImages_def picture_def)
  have k: "failures browser secondBlocked ''sepia'' ''filtered'' ?images = 1"
    by (simp add: uploadedBatch_images secondBlocked_failures)
  from batch_failures_aggregated [OF co failed]
  obtain s' where
    run: "handleBatchApply browser ''sepia'' secondBlocked ''filtered'' [2, 0, 1] uploadedBatch = Some s'"
    and kept: "\<forall>i < length ?images. \<forall>newFile.
           processImage browser secondBlocked ''sepia'' ''filtered'' (?images ! i) i = Inr newFile \<longrightarrow>
           processedBatchImages s' ! i = Some newFile"
    and lost: "\<forall>i < length ?images. \<forall>err.
           processImage browser secondBlocked ''sepia'' ''filtered'' (?images ! i) i = Inl err \<longrightarrow>
           processedBatchImages s' ! i = None
           \<and> (failureLabel ?images i, err) \<in> set (console s')"
    and warn: "error s' =
         Some (digits (failures browser secondBlocked ''sepia'' ''filtered'' ?images) @ '' out of '' @
               digits (length ?images) @
               '' image(s) could not be processed. They may have been blocked due to safety policies.'')"
    by blast
  from kept r0 have a: "processedBatchImages s' ! 0 = Some (sepia ''filtered-0-a.png'')" by blast
  from lost r1 have b: "processedBatchImages s' ! 1 = None
     \<and> (failureLabel ?images 1, BlockedRequest ''Request was blocked. Reason: SAFETY. '') \<in> set (console s')"
    by blast
  have msg: "digits (failures browser secondBlocked ''sepia'' ''filtered'' ?images) @ '' out of '' @
               digits (length ?images) @
               '' image(s) could not be processed. They may have been blocked due to safety policies.'' =
             ''1 out of 3 image(s) could not be processed. They may have been blocked due to safety policies.''"
    unfolding k uploadedBatch_images(2) digits_small by simp
  from warn have c: "error s' = Some ''1 out of 3 image(s) could not be processed. They may have been blocked due to safety policies.''"
    unfolding msg .
  from co failed run a b c label show ?thesis by auto
qed

theorem batch_all_failed_witness:
  "completionOrder (length (batchImages uploadedBatch)) [2, 0, 1]
   \<and> 0 < length (batchImages uploadedBatch)
   \<and> \<not> succeeded browser allBlocked ''sepia'' ''filtered'' (batchImages uploadedBatch) 0
   \<and> \<not> succeeded browser allBlocked ''sepia'' ''filtered'' (batchImages uploadedBatch) 1
   \<and> \<not> succeeded browser allBlocked ''sepia'' ''filtered'' (batchImages uploadedBatch) 2
   \<and> (\<exists>s'. handleBatchApply browser ''sepia'' allBlocked ''filtered'' [2, 0, 1] uploadedBatch = Some s'
          \<and> processedBatchImages s' = [None, None, None]
          \<and> isBatchProcessingComplete s'
          \<and> \<not> isLoading s'
          \<and> error s' = Some ''3 out of 3 image(s) could not be processed. They may have been blocked due to safety policies.'')"
proof -
  let ?images = "batchImages uploadedBatch"
  have co: "completionOrder (length ?images) [2, 0, 1]"
    unfolding uploadedBatch_images(2) by (rule order_201)
  have some: "0 < length ?images" by (simp add: uploadedBatch_images threeImages_length)
  have failed: "\<forall>i < length ?images.
         \<not> succeeded browser allBlocked ''sepia'' ''filtered'' ?images i"
    by (simp add: succeeded_def allBlocked_runs)
  have rep: "replicate (length ?images) None = [None, None, None :: File option]"
    unfolding uploadedBatch_images(2) by (simp add: numeral_3_eq_3)
  have msg: "digits (length ?images) @ '' out of '' @ digits (length ?images) @
               '' image(s) could not be processed. They may have been blocked due to safety policies.'' =
             ''3 out of 3 image(s) could not be processed. They may have been blocked due to safety policies.''"
    unfolding uploadedBatch_images(2) digits_small by simp
  from batch_all_failed [OF co some failed, unfolded rep msg]
  have "\<exists>s'. handleBatchApply browser ''sepia'' allBlocked ''filtered'' [2, 0, 1] uploadedBatch = Some s'
          \<and> processedBatchImages s' = [None, None, None]
          \<and> isBatchProcessingComplete s'
          \<and> \<not> isLoading s'
          \<and> error s' = Some ''3 out of 3 image(s) could not be processed. They may have been blocked due to safety policies.''" .
  with co some failed [rule_format, of 0] failed [rule_format, of 1] failed [rule_format, of 2]
  show ?thesis by (simp add: uploadedBatch_images(2))
qed

end
